theory Spec2Isabelle
  imports Main "HOL-Library.Sublist" "HOL-Library.AList"
begin

section \<open>Strings and numbers of the host language\<close>

text \<open>
  Strings are lists of characters. The keywords and labels of the server are ASCII.
  \<open>toLowerCase\<close> is modelled on ASCII text: it maps the letters A to Z to a to z and
  leaves every other character as it is, whereas the host language lower-cases every
  cased character. It is only ever evaluated on ASCII prompts below, and no property
  depends on what it does to other characters.
\<close>

definition lower_char :: "char \<Rightarrow> char" where
  "lower_char c =
     (case map_of (zip ''ABCDEFGHIJKLMNOPQRSTUVWXYZ'' ''abcdefghijklmnopqrstuvwxyz'') c of
        None \<Rightarrow> c
      | Some l \<Rightarrow> l)"

definition toLowerCase :: "string \<Rightarrow> string" where
  "toLowerCase s = map lower_char s"

text \<open>\<open>includes_str s k\<close> is \<open>s.includes(k)\<close>: \<open>k\<close> occurs in \<open>s\<close> as a contiguous run.\<close>

fun includes_str :: "string \<Rightarrow> string \<Rightarrow> bool" where
  "includes_str [] k = (k = [])"
| "includes_str (c # cs) k = (prefix k (c # cs) \<or> includes_str cs k)"

text \<open>\<open>join sep parts\<close> is \<open>parts.join(sep)\<close>.\<close>

fun join :: "string \<Rightarrow> string list \<Rightarrow> string" where
  "join sep [] = []"
| "join sep [p] = p"
| "join sep (p # q # ps) = p @ sep @ join sep (q # ps)"

text \<open>Decimal rendering of an integer, as a template literal renders a number.\<close>

fun show_nat :: "nat \<Rightarrow> string" where
  "show_nat n =
     (if n < 10 then [''0123456789'' ! n]
      else show_nat (n div 10) @ [''0123456789'' ! (n mod 10)])"

declare show_nat.simps [simp del]

definition show_int :: "int \<Rightarrow> string" where
  "show_int i = (if i < 0 then ''-'' @ show_nat (nat (- i)) else show_nat (nat i))"

section \<open>Session store\<close>

datatype content = Content (role: string) (parts: "string list")

record ConversationSession =
  history :: "content list"
  createdAt :: int
  lastUsed :: int
  cwd :: "string option"

text \<open>
  The \<open>sessions\<close> map keeps its entries in insertion order with one entry per key:
  an association list, \<open>map_of\<close> for \<open>get\<close>, \<open>AList.update\<close> for \<open>set\<close>
  (replace in place, or append), \<open>AList.delete\<close> for \<open>delete\<close>.
\<close>

type_synonym session_store = "(string \<times> ConversationSession) list"

text \<open>\<open>cleanupSessions\<close>, with the clock reading \<open>Date.now()\<close> as its argument.\<close>

definition cleanupSessions :: "int \<Rightarrow> session_store \<Rightarrow> session_store" where
  "cleanupSessions dateNow sessions =
     (let oneHourAgo = dateNow - 60 * 60 * 1000 in
      fold (\<lambda>(id, session) m.
              if lastUsed session < oneHourAgo then AList.delete id m else m)
           sessions sessions)"

text \<open>
  \<open>generateConversationId\<close>: the clock reading and the seven characters taken from
  \<open>Math.random().toString(36)\<close> are arguments.
\<close>

definition generateConversationId :: "int \<Rightarrow> string \<Rightarrow> string" where
  "generateConversationId dateNow rnd = ''gemini-'' @ show_int dateNow @ ''-'' @ rnd"

section \<open>System instruction\<close>

record config =
  config_cwd :: "string option"
  config_sandbox :: "string option"
  config_baseInstructions :: "string option"
  config_developerInstructions :: "string option"

definition defaultInstructions :: string where
  "defaultInstructions =
     ''You are an expert software engineer assistant powered by Gemini 3 Pro Preview.'' @
     ''\<newline>You help with code review, analysis, planning, and problem-solving.'' @
     ''\<newline>Provide clear, concise, and actionable responses.'' @
     ''\<newline>When reviewing code or plans, be thorough but practical.''"

text \<open>
  \<open>sandboxDescriptions\<close> is an object literal with three own properties, and
  \<open>sandboxDescriptions[key]\<close> is a property read: a key that is not an own property is
  looked up on \<open>Object.prototype\<close>, where twelve names are defined, each with a value
  that is not a string and is truthy (eleven functions and the prototype object itself,
  under \<open>__proto__\<close>). Every other key reads as \<open>undefined\<close>.
\<close>

datatype jsvalue = Undefined | Str string | Inherited string

definition Object_prototype_names :: "string list" where
  "Object_prototype_names =
     [''constructor'', ''__defineGetter__'', ''__defineSetter__'', ''hasOwnProperty'',
      ''__lookupGetter__'', ''__lookupSetter__'', ''isPrototypeOf'',
      ''propertyIsEnumerable'', ''toString'', ''valueOf'', ''__proto__'',
      ''toLocaleString'']"

definition ownDescriptions :: "(string \<times> string) list" where
  "ownDescriptions =
     [(''read-only'',
       ''You are in read-only mode. You can analyze and review but cannot make changes.''),
      (''workspace-write'', ''You can read and write within the workspace directory.''),
      (''danger-full-access'', ''You have full access to read and write files.'')]"

definition sandboxDescriptions :: "string \<Rightarrow> jsvalue" where
  "sandboxDescriptions key =
     (case map_of ownDescriptions key of
        Some description \<Rightarrow> Str description
      | None \<Rightarrow> if key \<in> set Object_prototype_names then Inherited key else Undefined)"

fun truthy :: "jsvalue \<Rightarrow> bool" where
  "truthy Undefined = False"
| "truthy (Str s) = (s \<noteq> [])"
| "truthy (Inherited key) = True"

text \<open>The text a template literal puts for a value (the runtime is Node).\<close>

fun toString :: "jsvalue \<Rightarrow> string" where
  "toString Undefined = ''undefined''"
| "toString (Str s) = s"
| "toString (Inherited key) =
     (if key = ''__proto__'' then ''[object Object]''
      else ''function '' @ (if key = ''constructor'' then ''Object'' else key) @
           ''() { [native code] }'')"

text \<open>
  \<open>buildSystemInstruction\<close>. Each \<open>if (config.field)\<close> tests truthiness: a field that
  is absent or the empty string fails it.
\<close>

definition buildSystemInstruction :: "config \<Rightarrow> string" where
  "buildSystemInstruction config =
     (let parts0 =
            (case config_baseInstructions config of
               None \<Rightarrow> [defaultInstructions]
             | Some b \<Rightarrow> if b \<noteq> [] then [b] else [defaultInstructions]);
          parts1 = parts0 @
            (case config_cwd config of
               None \<Rightarrow> []
             | Some d \<Rightarrow> if d \<noteq> [] then [''\<newline>Working directory: '' @ d] else []);
          parts2 = parts1 @
            (case config_sandbox config of
               None \<Rightarrow> []
             | Some s \<Rightarrow>
                 if s \<noteq> [] \<and> truthy (sandboxDescriptions s)
                 then [''\<newline>Access level: '' @ toString (sandboxDescriptions s)]
                 else []);
          parts3 = parts2 @
            (case config_developerInstructions config of
               None \<Rightarrow> []
             | Some d \<Rightarrow>
                 if d \<noteq> [] then [''\<newline>Developer Instructions:\<newline>'' @ d] else [])
      in join ''\<newline>'' parts3)"

section \<open>Model router\<close>

definition IMAGE_MODEL_FAST :: string where
  "IMAGE_MODEL_FAST = ''gemini-2.5-flash-image''"

definition IMAGE_MODEL_PRO :: string where
  "IMAGE_MODEL_PRO = ''gemini-3-pro-image-preview''"

definition PRO_KEYWORDS :: "string list" where
  "PRO_KEYWORDS =
     [''nano banana pro'', ''nanobanana pro'', ''pro model'',
      ''infographic'', ''diagram'', ''chart'', ''graph'',
      ''text'', ''typography'', ''font'', ''lettering'', ''writing'',
      ''slide'', ''presentation'', ''deck'',
      ''logo'', ''brand'', ''poster'', ''flyer'', ''banner'',
      ''document'', ''page'', ''layout'',
      ''high quality'', ''high-quality'', ''hq'', ''4k'',
      ''detailed text'', ''readable'', ''legible'']"

definition shouldUsePro :: "string \<Rightarrow> bool" where
  "shouldUsePro prompt =
     (let lower = toLowerCase prompt in list_ex (\<lambda>keyword. includes_str lower keyword) PRO_KEYWORDS)"

section \<open>Remote invoker\<close>

text \<open>
  What a remote call throws: an \<open>Error\<close> object with its message, or any other value
  with its \<open>String(...)\<close> rendering.
\<close>

datatype thrown = ErrorObject string | OtherValue string

fun errorMessage :: "thrown \<Rightarrow> string" where
  "errorMessage (ErrorObject message) = message"
| "errorMessage (OtherValue rendering) = rendering"

record chat_request =
  chat_model :: string
  chat_systemInstruction :: "string option"
  chat_history :: "content list"
  chat_message :: string

record image_request =
  img_model :: string
  img_prompt :: string
  img_numberOfImages :: int
  img_aspectRatio :: string

datatype remote_call = ChatCall chat_request | ImageCall image_request

text \<open>
  Everything a dispatch takes from outside the program: the environment variable
  \<open>GEMINI_MODEL\<close>; the clock (\<open>now env k\<close> is the \<open>k\<close>-th reading of
  \<open>Date.now()\<close> in the dispatch, from 0); the random suffix of a new conversation id;
  and the remote service. \<open>sendMessage\<close> answers a chat request with the reply's
  \<open>text\<close> (which may be missing) or throws; \<open>generateImages\<close> answers with the
  optional list \<open>generatedImages\<close>, each element the image bytes if it has any, or
  throws.
\<close>

record env =
  GEMINI_MODEL :: "string option"
  now :: "nat \<Rightarrow> int"
  randomSuffix :: string
  sendMessage :: "chat_request \<Rightarrow> thrown + string option"
  generateImages :: "image_request \<Rightarrow> thrown + string option list option"

definition MODEL :: "env \<Rightarrow> string" where
  "MODEL env =
     (case GEMINI_MODEL env of
        None \<Rightarrow> ''gemini-3-pro-preview''
      | Some m \<Rightarrow> if m \<noteq> [] then m else ''gemini-3-pro-preview'')"

text \<open>
  \<open>callGemini\<close> and \<open>generateImage\<close> return the remote calls they made together with
  their result, \<open>Inl\<close> for what was thrown.
\<close>

definition callGemini ::
  "env \<Rightarrow> string \<Rightarrow> content list \<Rightarrow> string option
     \<Rightarrow> remote_call list \<times> (thrown + string \<times> content list)" where
  "callGemini env prompt hist systemInstruction =
     (let chat = \<lparr>chat_model = MODEL env,
                  chat_systemInstruction =
                    (case systemInstruction of
                       None \<Rightarrow> None
                     | Some s \<Rightarrow> if s \<noteq> [] then Some s else None),
                  chat_history = hist,
                  chat_message = prompt\<rparr>
      in ([ChatCall chat],
          case sendMessage env chat of
            Inl error \<Rightarrow> Inl error
          | Inr responseText \<Rightarrow>
              (let text = (case responseText of None \<Rightarrow> [] | Some t \<Rightarrow> t)
               in Inr (text,
                       hist @ [Content ''user'' [prompt], Content ''model'' [text]]))))"

record image_options =
  numberOfImages :: "int option"
  aspectRatio :: "string option"
  usePro :: "bool option"

record image_result =
  images :: "(string \<times> string) list"
  result_prompt :: string
  result_model :: string

definition generateImage ::
  "env \<Rightarrow> string \<Rightarrow> image_options \<Rightarrow> remote_call list \<times> (thrown + image_result)" where
  "generateImage env prompt options =
     (let count = (case numberOfImages options of
                     None \<Rightarrow> 1
                   | Some n \<Rightarrow> if n \<noteq> 0 then n else 1);
          ratio = (case aspectRatio options of
                     None \<Rightarrow> ''1:1''
                   | Some a \<Rightarrow> if a \<noteq> [] then a else ''1:1'');
          pro = (case usePro options of
                   None \<Rightarrow> shouldUsePro prompt
                 | Some b \<Rightarrow> b);
          model = (if pro then IMAGE_MODEL_PRO else IMAGE_MODEL_FAST);
          request = \<lparr>img_model = model, img_prompt = prompt,
                     img_numberOfImages = count, img_aspectRatio = ratio\<rparr>
      in ([ImageCall request],
          case generateImages env request of
            Inl error \<Rightarrow> Inl error
          | Inr generatedImages \<Rightarrow>
              Inr \<lparr>images =
                     (case generatedImages of
                        None \<Rightarrow> []
                      | Some gs \<Rightarrow>
                          concat (map (\<lambda>g. case g of
                                             None \<Rightarrow> []
                                           | Some bytes \<Rightarrow>
                                               if bytes \<noteq> [] then [(bytes, ''image/png'')]
                                               else []) gs)),
                   result_prompt = prompt,
                   result_model = model\<rparr>))"

section \<open>Tool dispatcher\<close>

record arguments =
  arg_prompt :: string
  arg_cwd :: "string option"
  arg_sandbox :: "string option"
  arg_baseInstructions :: "string option"
  arg_developerInstructions :: "string option"
  arg_model :: "string option"
  arg_conversationId :: string
  arg_numberOfImages :: "int option"
  arg_aspectRatio :: "string option"
  arg_usePro :: "bool option"

record request =
  name :: string
  args :: arguments

datatype content_block = TextBlock string | ImageBlock string string

record tool_response =
  content :: "content_block list"
  isError :: bool
  meta_conversationId :: "string option"

text \<open>
  A dispatch yields the response, the session store it leaves, and the remote calls it
  made, in order.
\<close>

record outcome =
  reply :: tool_response
  store :: session_store
  sent :: "remote_call list"

text \<open>The \<open>catch\<close> block of the handler.\<close>

definition caught :: "thrown \<Rightarrow> tool_response" where
  "caught error =
     \<lparr>content = [TextBlock (''Gemini API error: '' @ errorMessage error)],
      isError = True,
      meta_conversationId = None\<rparr>"

text \<open>
  The \<open>try\<close> block is a chain of branches on the tool name, each run on the store that
  \<open>cleanupSessions\<close> has left. One dispatch runs to its end before the next starts.
\<close>

text \<open>Branch \<open>name === "gemini"\<close>.\<close>

definition geminiBranch :: "env \<Rightarrow> arguments \<Rightarrow> session_store \<Rightarrow> outcome" where
  "geminiBranch env a sessions =
     (let systemInstruction =
            buildSystemInstruction
              \<lparr>config_cwd = arg_cwd a,
               config_sandbox = arg_sandbox a,
               config_baseInstructions = arg_baseInstructions a,
               config_developerInstructions = arg_developerInstructions a\<rparr>;
          called = callGemini env (arg_prompt a) [] (Some systemInstruction)
      in case snd called of
           Inl error \<Rightarrow> \<lparr>reply = caught error, store = sessions, sent = fst called\<rparr>
         | Inr result \<Rightarrow>
             (let conversationId = generateConversationId (now env 1) (randomSuffix env)
              in \<lparr>reply = \<lparr>content = [TextBlock (fst result)],
                            isError = False,
                            meta_conversationId = Some conversationId\<rparr>,
                  store = AList.update conversationId
                            \<lparr>history = snd result,
                             createdAt = now env 2,
                             lastUsed = now env 3,
                             cwd = arg_cwd a\<rparr> sessions,
                  sent = fst called\<rparr>))"

text \<open>Branch \<open>name === "gemini-reply"\<close>.\<close>

definition geminiReplyBranch :: "env \<Rightarrow> arguments \<Rightarrow> session_store \<Rightarrow> outcome" where
  "geminiReplyBranch env a sessions =
     (case map_of sessions (arg_conversationId a) of
        None \<Rightarrow>
          \<lparr>reply = \<lparr>content = [TextBlock (''Error: Conversation '' @ arg_conversationId a @
                                '' not found. It may have expired or never existed.'')],
                    isError = True,
                    meta_conversationId = None\<rparr>,
           store = sessions,
           sent = []\<rparr>
      | Some session \<Rightarrow>
          (let systemInstruction =
                 buildSystemInstruction
                   \<lparr>config_cwd = cwd session,
                    config_sandbox = None,
                    config_baseInstructions = None,
                    config_developerInstructions = None\<rparr>;
               called = callGemini env (arg_prompt a) (history session)
                          (Some systemInstruction)
           in case snd called of
                Inl error \<Rightarrow> \<lparr>reply = caught error, store = sessions, sent = fst called\<rparr>
              | Inr result \<Rightarrow>
                  \<lparr>reply = \<lparr>content = [TextBlock (fst result)],
                            isError = False,
                            meta_conversationId = Some (arg_conversationId a)\<rparr>,
                   store = AList.update (arg_conversationId a)
                             (session\<lparr>history := snd result, lastUsed := now env 1\<rparr>)
                             sessions,
                   sent = fst called\<rparr>))"

text \<open>
  Branch \<open>name === "gemini-image"\<close>. Saving the images under \<open>outputPath\<close> is left to
  the file system and is not part of the model: the summary text is that of a call
  without \<open>outputPath\<close>.
\<close>

definition geminiImageBranch :: "env \<Rightarrow> arguments \<Rightarrow> session_store \<Rightarrow> outcome" where
  "geminiImageBranch env a sessions =
     (let called =
            generateImage env (arg_prompt a)
              \<lparr>numberOfImages =
                 Some (case arg_numberOfImages a of
                         None \<Rightarrow> 1
                       | Some n \<Rightarrow> if n \<noteq> 0 then n else 1),
               aspectRatio =
                 Some (case arg_aspectRatio a of
                         None \<Rightarrow> ''1:1''
                       | Some r \<Rightarrow> if r \<noteq> [] then r else ''1:1''),
               usePro =
                 Some (case arg_usePro a of
                         None \<Rightarrow> False
                       | Some b \<Rightarrow> b)\<rparr>
      in case snd called of
           Inl error \<Rightarrow> \<lparr>reply = caught error, store = sessions, sent = fst called\<rparr>
         | Inr result \<Rightarrow>
             \<lparr>reply = \<lparr>content =
                         TextBlock (''Generated '' @ show_nat (length (images result)) @
                                    '' image(s) using '' @ result_model result @
                                    '' for prompt: '' @ [CHR 0x22] @ arg_prompt a @
                                    [CHR 0x22])
                         # map (\<lambda>img. ImageBlock (fst img) (snd img)) (images result),
                       isError = False,
                       meta_conversationId = None\<rparr>,
              store = sessions,
              sent = fst called\<rparr>)"

definition dispatchTool :: "env \<Rightarrow> request \<Rightarrow> session_store \<Rightarrow> outcome" where
  "dispatchTool env request sessions =
     (if name request = ''gemini'' then geminiBranch env (args request) sessions
      else if name request = ''gemini-reply'' then geminiReplyBranch env (args request) sessions
      else if name request = ''gemini-image'' then geminiImageBranch env (args request) sessions
      else
        \<lparr>reply = \<lparr>content = [TextBlock (''Unknown tool: '' @ name request)],
                  isError = True,
                  meta_conversationId = None\<rparr>,
         store = sessions,
         sent = []\<rparr>)"

text \<open>
  The handler of a tool call: \<open>cleanupSessions\<close> with the first clock reading, then the
  \<open>try\<close> block.
\<close>

definition callToolHandler :: "env \<Rightarrow> request \<Rightarrow> session_store \<Rightarrow> outcome" where
  "callToolHandler env request sessions =
     dispatchTool env request (cleanupSessions (now env 0) sessions)"

section \<open>Observations used in the properties\<close>

text \<open>The image requests and the chat requests among the remote calls of a dispatch.\<close>

fun imageRequests :: "remote_call list \<Rightarrow> image_request list" where
  "imageRequests [] = []"
| "imageRequests (ImageCall r # cs) = r # imageRequests cs"
| "imageRequests (ChatCall r # cs) = imageRequests cs"

fun chatRequests :: "remote_call list \<Rightarrow> chat_request list" where
  "chatRequests [] = []"
| "chatRequests (ChatCall r # cs) = r # chatRequests cs"
| "chatRequests (ImageCall r # cs) = chatRequests cs"

text \<open>The range the tool's input schema declares for \<open>numberOfImages\<close>.\<close>

definition within_limits :: "int \<Rightarrow> bool" where
  "within_limits n = (1 \<le> n \<and> n \<le> 4)"

text \<open>
  A history of complete reply cycles: user turn, model turn, user turn, model turn, and so
  on.
\<close>

fun completeCycles :: "content list \<Rightarrow> bool" where
  "completeCycles [] = True"
| "completeCycles [c] = False"
| "completeCycles (u # m # rest) =
     (role u = ''user'' \<and> role m = ''model'' \<and> completeCycles rest)"

text \<open>Every session of a store has a history of complete reply cycles.\<close>

definition storeComplete :: "session_store \<Rightarrow> bool" where
  "storeComplete sessions = list_all (\<lambda>entry. completeCycles (history (snd entry))) sessions"

text \<open>A run of dispatches, each with its own environment, from a given store.\<close>

fun runDispatches :: "(env \<times> request) list \<Rightarrow> session_store \<Rightarrow> session_store" where
  "runDispatches [] sessions = sessions"
| "runDispatches (step # steps) sessions =
     runDispatches steps (store (callToolHandler (fst step) (snd step) sessions))"

text \<open>
  The instruction composer as the specification words it, to compare with
  \<open>buildSystemInstruction\<close>: a field is supplied when it is present, whatever its
  value, and exactly the three own keys of the table are recognized access policies.
\<close>

definition compose_spec :: "config \<Rightarrow> string" where
  "compose_spec config =
     join ''\<newline>''
       ([case config_baseInstructions config of
           None \<Rightarrow> defaultInstructions
         | Some b \<Rightarrow> b] @
        (case config_cwd config of
           None \<Rightarrow> []
         | Some d \<Rightarrow> [''\<newline>Working directory: '' @ d]) @
        (case config_sandbox config of
           None \<Rightarrow> []
         | Some s \<Rightarrow>
             (case map_of ownDescriptions s of
                None \<Rightarrow> []
              | Some description \<Rightarrow> [''\<newline>Access level: '' @ description])) @
        (case config_developerInstructions config of
           None \<Rightarrow> []
         | Some d \<Rightarrow> [''\<newline>Developer Instructions:\<newline>'' @ d]))"

text \<open>A configuration with its empty-string fields taken as absent.\<close>

definition dropEmpty :: "string option \<Rightarrow> string option" where
  "dropEmpty field = (case field of None \<Rightarrow> None | Some s \<Rightarrow> if s \<noteq> [] then Some s else None)"

definition nonEmptyFields :: "config \<Rightarrow> config" where
  "nonEmptyFields config =
     \<lparr>config_cwd = dropEmpty (config_cwd config),
      config_sandbox = dropEmpty (config_sandbox config),
      config_baseInstructions = dropEmpty (config_baseInstructions config),
      config_developerInstructions = dropEmpty (config_developerInstructions config)\<rparr>"

subsection \<open>Sample inputs\<close>

definition sample_env :: env where
  "sample_env =
     \<lparr>GEMINI_MODEL = None,
      now = (\<lambda>k. 7200000 + int k),
      randomSuffix = ''k3x9q2a'',
      sendMessage = (\<lambda>r. Inr (Some ''Hello'')),
      generateImages = (\<lambda>r. Inr (Some [Some ''iVBORw0KGgo='']))\<rparr>"

definition failing_env :: env where
  "failing_env =
     \<lparr>GEMINI_MODEL = None,
      now = (\<lambda>k. 7200000 + int k),
      randomSuffix = ''k3x9q2a'',
      sendMessage = (\<lambda>r. Inl (ErrorObject ''quota exceeded'')),
      generateImages = (\<lambda>r. Inl (ErrorObject ''quota exceeded''))\<rparr>"

definition sample_args :: arguments where
  "sample_args =
     \<lparr>arg_prompt = ''a cute cat'',
      arg_cwd = None,
      arg_sandbox = None,
      arg_baseInstructions = None,
      arg_developerInstructions = None,
      arg_model = None,
      arg_conversationId = ''gemini-7000000-abc1234'',
      arg_numberOfImages = None,
      arg_aspectRatio = None,
      arg_usePro = None\<rparr>"

definition sample_session :: "int \<Rightarrow> ConversationSession" where
  "sample_session used =
     \<lparr>history = [Content ''user'' [''hello''], Content ''model'' [''Hi'']],
      createdAt = 1000,
      lastUsed = used,
      cwd = Some ''/srv/app''\<rparr>"

definition sample_initial :: request where
  "sample_initial =
     \<lparr>name = ''gemini'',
      args = sample_args\<lparr>arg_prompt := ''hello'', arg_cwd := Some ''/srv/app''\<rparr>\<rparr>"

definition sample_reply :: request where
  "sample_reply =
     \<lparr>name = ''gemini-reply'',
      args = sample_args\<lparr>arg_prompt := ''again'',
                         arg_conversationId := ''gemini-7200001-k3x9q2a''\<rparr>\<rparr>"

definition no_config :: config where
  "no_config =
     \<lparr>config_cwd = None,
      config_sandbox = None,
      config_baseInstructions = None,
      config_developerInstructions = None\<rparr>"

section \<open>Image requests\<close>

lemma generateImage_sent:
  "fst (generateImage env prompt options) =
     [ImageCall \<lparr>img_model = (if (case usePro options of None \<Rightarrow> shouldUsePro prompt
                                     | Some b \<Rightarrow> b)
                                 then IMAGE_MODEL_PRO else IMAGE_MODEL_FAST),
                 img_prompt = prompt,
                 img_numberOfImages = (case numberOfImages options of None \<Rightarrow> 1
                                        | Some n \<Rightarrow> if n \<noteq> 0 then n else 1),
                 img_aspectRatio = (case aspectRatio options of None \<Rightarrow> ''1:1''
                                     | Some r \<Rightarrow> if r \<noteq> [] then r else ''1:1'')\<rparr>]"
  by (simp add: generateImage_def Let_def)

lemma geminiImageBranch_sent:
  "sent (geminiImageBranch env a sessions) =
     fst (generateImage env (arg_prompt a)
              \<lparr>numberOfImages =
                 Some (case arg_numberOfImages a of
                         None \<Rightarrow> 1
                       | Some n \<Rightarrow> if n \<noteq> 0 then n else 1),
               aspectRatio =
                 Some (case arg_aspectRatio a of
                         None \<Rightarrow> ''1:1''
                       | Some r \<Rightarrow> if r \<noteq> [] then r else ''1:1''),
               usePro =
                 Some (case arg_usePro a of
                         None \<Rightarrow> False
                       | Some b \<Rightarrow> b)\<rparr>)"
  unfolding geminiImageBranch_def Let_def by (simp split: sum.split)

lemma callToolHandler_image:
  "callToolHandler env \<lparr>name = ''gemini-image'', args = a\<rparr> sessions =
     geminiImageBranch env a (cleanupSessions (now env 0) sessions)"
  by (simp add: callToolHandler_def dispatchTool_def)

lemma image_dispatch_sent:
  "sent (callToolHandler env \<lparr>name = ''gemini-image'', args = a\<rparr> sessions) =
     [ImageCall \<lparr>img_model = (if (case arg_usePro a of None \<Rightarrow> False | Some b \<Rightarrow> b)
                                 then IMAGE_MODEL_PRO else IMAGE_MODEL_FAST),
                 img_prompt = arg_prompt a,
                 img_numberOfImages = (case arg_numberOfImages a of None \<Rightarrow> 1
                                        | Some n \<Rightarrow> if n \<noteq> 0 then n else 1),
                 img_aspectRatio = (case arg_aspectRatio a of None \<Rightarrow> ''1:1''
                                     | Some r \<Rightarrow> if r \<noteq> [] then r else ''1:1'')\<rparr>]"
  by (simp add: callToolHandler_image geminiImageBranch_sent generateImage_sent
           split: option.split)

lemma shouldUsePro_infographic: "shouldUsePro ''Create an infographic of X''"
  by (simp add: shouldUsePro_def toLowerCase_def lower_char_def PRO_KEYWORDS_def)

lemma image_models_differ: "IMAGE_MODEL_PRO \<noteq> IMAGE_MODEL_FAST"
  by (simp add: IMAGE_MODEL_PRO_def IMAGE_MODEL_FAST_def)

text \<open>
  C1 (tier of a generate-images dispatch without \<open>usePro\<close>). The prompt
  \<open>Create an infographic of X\<close> contains a keyword, and \<open>generateImage\<close> called with
  \<open>usePro\<close> absent sends the advanced model for it. The dispatcher never calls it so:
  it passes \<open>usePro || false\<close>, so a dispatch without \<open>usePro\<close> sends the fast model
  for every prompt, this one included, whatever the other arguments, the environment and
  the store.
\<close>

theorem C1_dispatch_without_usePro_sends_fast:
  "shouldUsePro ''Create an infographic of X''
   \<and> map img_model (imageRequests (fst (generateImage env ''Create an infographic of X''
         \<lparr>numberOfImages = None, aspectRatio = None, usePro = None\<rparr>))) = [IMAGE_MODEL_PRO]
   \<and> map img_model (imageRequests (sent (callToolHandler env
         \<lparr>name = ''gemini-image'', args = a\<lparr>arg_usePro := None\<rparr>\<rparr> sessions))) =
       [IMAGE_MODEL_FAST]
   \<and> map img_model (imageRequests (sent (callToolHandler env
         \<lparr>name = ''gemini-image'',
          args = a\<lparr>arg_prompt := ''Create an infographic of X'', arg_usePro := None\<rparr>\<rparr>
         sessions))) = [IMAGE_MODEL_FAST]
   \<and> IMAGE_MODEL_FAST \<noteq> IMAGE_MODEL_PRO"
  using shouldUsePro_infographic image_models_differ
  by (simp add: image_dispatch_sent generateImage_sent)

text \<open>
  C2 (explicit override). With \<open>usePro\<close> present and equal to \<open>b\<close>, the model sent to
  the remote image operation is the advanced one if and only if \<open>b\<close> is true, for
  every prompt: in \<open>generateImage\<close> itself, and in a generate-images dispatch.
\<close>

theorem C2_explicit_override_wins:
  "map img_model (imageRequests (fst (generateImage env p (options\<lparr>usePro := Some b\<rparr>)))) =
     [if b then IMAGE_MODEL_PRO else IMAGE_MODEL_FAST]
   \<and> map img_model (imageRequests (sent (callToolHandler env
         \<lparr>name = ''gemini-image'', args = a\<lparr>arg_prompt := p, arg_usePro := Some b\<rparr>\<rparr>
         sessions))) = [if b then IMAGE_MODEL_PRO else IMAGE_MODEL_FAST]
   \<and> ((if b then IMAGE_MODEL_PRO else IMAGE_MODEL_FAST) = IMAGE_MODEL_PRO \<longleftrightarrow> b)"
  using image_models_differ
  by (simp add: image_dispatch_sent generateImage_sent)

text \<open>
  C3, as amended (image count). A generate-images dispatch forwards the count 1 when
  \<open>numberOfImages\<close> is absent or 0, and forwards any other supplied count as it is:
  nothing is clamped. So the forwarded count lies in the range 1 to 4 exactly when the
  supplied count is absent, 0, or itself in the range.
\<close>

theorem C3_count_forwarded_unchanged:
  "map img_numberOfImages (imageRequests (sent (callToolHandler env
       \<lparr>name = ''gemini-image'', args = a\<rparr> sessions))) =
     [case arg_numberOfImages a of None \<Rightarrow> 1 | Some n \<Rightarrow> if n = 0 then 1 else n]
   \<and> (list_all within_limits (map img_numberOfImages (imageRequests (sent (callToolHandler env
         \<lparr>name = ''gemini-image'', args = a\<rparr> sessions))))
        \<longleftrightarrow> arg_numberOfImages a = None \<or> arg_numberOfImages a = Some 0
             \<or> (\<exists>n. arg_numberOfImages a = Some n \<and> within_limits n))"
  by (auto simp add: image_dispatch_sent within_limits_def split: option.splits)

text \<open>
  C3 as stated fails: a dispatch with \<open>numberOfImages = 7\<close> forwards 7, which is
  outside the range 1 to 4.
\<close>

theorem C3_counterexample:
  "map img_numberOfImages (imageRequests (sent (callToolHandler sample_env
       \<lparr>name = ''gemini-image'', args = sample_args\<lparr>arg_numberOfImages := Some 7\<rparr>\<rparr> []))) = [7]
   \<and> \<not> within_limits 7"
  by (simp add: image_dispatch_sent within_limits_def sample_args_def)

section \<open>The sweep\<close>


lemma fold_delete_filter:
  "fold (\<lambda>(k, v) m. if P v then AList.delete k m else m) xs m =
     filter (\<lambda>(k, v). k \<notin> fst ` {x \<in> set xs. P (snd x)}) m"
proof (induction xs arbitrary: m)
  case Nil
  then show ?case by simp
next
  case (Cons x xs)
  obtain k v where x: "x = (k, v)" by (cases x)
  show ?case
  proof (cases "P v")
    case True
    have keys: "fst ` {y \<in> set (x # xs). P (snd y)} = insert k (fst ` {y \<in> set xs. P (snd y)})"
      using x True by force
    have "fold (\<lambda>(k, v) m. if P v then AList.delete k m else m) (x # xs) m =
          filter (\<lambda>(k', v'). k' \<notin> fst ` {x \<in> set xs. P (snd x)}) (AList.delete k m)"
      using Cons.IH [of "AList.delete k m"] x True by simp
    also have "\<dots> = filter (\<lambda>(k', v'). k' \<notin> fst ` {y \<in> set (x # xs). P (snd y)}) m"
      unfolding keys by (auto simp: AList.delete_eq intro!: filter_cong)
    finally show ?thesis .
  next
    case False
    have "{y \<in> set (x # xs). P (snd y)} = {y \<in> set xs. P (snd y)}"
      using x False by auto
    then show ?thesis
      using Cons.IH [of m] x False by simp
  qed
qed

lemma cleanupSessions_filter:
  assumes "distinct (map fst sessions)"
  shows "cleanupSessions dateNow sessions =
           filter (\<lambda>(k, session). \<not> lastUsed session < dateNow - 3600000) sessions"
proof -
  have "filter (\<lambda>(k, v). k \<notin> fst ` {x \<in> set sessions. lastUsed (snd x) < dateNow - 3600000}) sessions
        = filter (\<lambda>(k, session). \<not> lastUsed session < dateNow - 3600000) sessions"
  proof (rule filter_cong [OF refl])
    fix x assume xin: "x \<in> set sessions"
    obtain k v where x: "x = (k, v)" by (cases x)
    have "k \<in> fst ` {y \<in> set sessions. lastUsed (snd y) < dateNow - 3600000}
            \<longleftrightarrow> lastUsed v < dateNow - 3600000"
    proof
      assume "k \<in> fst ` {y \<in> set sessions. lastUsed (snd y) < dateNow - 3600000}"
      then obtain v' where v': "(k, v') \<in> set sessions" "lastUsed v' < dateNow - 3600000"
        by force
      from assms xin x v'(1) have "v' = v"
        by (simp add: eq_key_imp_eq_value)
      with v'(2) show "lastUsed v < dateNow - 3600000" by simp
    next
      assume "lastUsed v < dateNow - 3600000"
      with xin x show "k \<in> fst ` {y \<in> set sessions. lastUsed (snd y) < dateNow - 3600000}"
        by force
    qed
    then show "(case x of (k, v) \<Rightarrow> k \<notin> fst ` {x \<in> set sessions. lastUsed (snd x) < dateNow - 3600000})
             = (case x of (k, session) \<Rightarrow> \<not> lastUsed session < dateNow - 3600000)"
      using x by simp
  qed
  then show ?thesis
    by (simp add: cleanupSessions_def fold_delete_filter)
qed

lemma cleanupSessions_subset: "set (cleanupSessions dateNow sessions) \<subseteq> set sessions"
  by (auto simp: cleanupSessions_def fold_delete_filter)

lemma cleanupSessions_distinct:
  "distinct (map fst sessions) \<Longrightarrow> distinct (map fst (cleanupSessions dateNow sessions))"
  by (simp add: cleanupSessions_def fold_delete_filter distinct_map_filter)

lemma map_of_filter_distinct:
  "distinct (map fst xs) \<Longrightarrow>
     map_of (filter (\<lambda>(k, v). Q v) xs) k =
       (case map_of xs k of None \<Rightarrow> None | Some v \<Rightarrow> if Q v then Some v else None)"
proof (induction xs)
  case Nil
  then show ?case by simp
next
  case (Cons x xs)
  obtain k' v' where x: "x = (k', v')" by (cases x)
  from Cons.prems x have notin: "k' \<notin> fst ` set xs" and d: "distinct (map fst xs)" by auto
  show ?case
  proof (cases "k' = k")
    case True
    with notin have "map_of xs k = None" by (simp add: map_of_eq_None_iff)
    moreover have "map_of (filter (\<lambda>(k, v). Q v) xs) k = None"
      using notin True by (auto simp: map_of_eq_None_iff)
    ultimately show ?thesis using x True by simp
  next
    case False
    then show ?thesis using Cons.IH [OF d] x by simp
  qed
qed

text \<open>
  C4 (the sweep). On a store with one entry per conversation id, \<open>cleanupSessions\<close>
  keeps, in their order and unchanged, exactly the sessions whose \<open>lastUsed\<close> is not
  below the clock reading minus one hour (3600000 ms): looking up an id afterwards gives
  nothing when the session was older than that (or was not there), and gives the same
  session otherwise.
\<close>

theorem C4_sweep_removes_exactly_the_expired:
  assumes "distinct (map fst sessions)"
  shows "cleanupSessions dateNow sessions =
           filter (\<lambda>(k, session). \<not> lastUsed session < dateNow - 60 * 60 * 1000) sessions
         \<and> map_of (cleanupSessions dateNow sessions) k =
             (case map_of sessions k of
                None \<Rightarrow> None
              | Some session \<Rightarrow>
                  if lastUsed session < dateNow - 60 * 60 * 1000 then None else Some session)"
  using assms
  by (simp add: cleanupSessions_filter map_of_filter_distinct split: option.split)

text \<open>
  An instance: at clock reading 7200000 the session last used at 3599999 is removed, the
  one last used at 3600000, on the edge of the window, and the one at 7000000 stay.
\<close>

theorem C4_witness:
  "distinct (map fst [(''old'', sample_session 3599999), (''edge'', sample_session 3600000),
                      (''new'', sample_session 7000000)])
   \<and> cleanupSessions 7200000
        [(''old'', sample_session 3599999), (''edge'', sample_session 3600000),
         (''new'', sample_session 7000000)] =
       [(''edge'', sample_session 3600000), (''new'', sample_session 7000000)]
   \<and> map_of (cleanupSessions 7200000
        [(''old'', sample_session 3599999), (''edge'', sample_session 3600000),
         (''new'', sample_session 7000000)]) ''old'' = None"
proof -
  have d: "distinct (map fst [(''old'', sample_session 3599999), (''edge'', sample_session 3600000),
                      (''new'', sample_session 7000000)])"
    by simp
  show ?thesis
    using d C4_sweep_removes_exactly_the_expired [OF d, of 7200000 "''old''"]
    by (simp add: sample_session_def)
qed


section \<open>Chat turns and histories\<close>

lemma callGemini_fst:
  "fst (callGemini env prompt hist (Some instruction)) =
     [ChatCall \<lparr>chat_model = MODEL env,
               chat_systemInstruction = (if instruction \<noteq> [] then Some instruction else None),
               chat_history = hist,
               chat_message = prompt\<rparr>]"
  by (simp add: callGemini_def Let_def)

lemma completeCycles_append:
  "completeCycles h \<Longrightarrow> completeCycles (h @ [Content ''user'' [p], Content ''model'' [t]])"
  by (induction h rule: completeCycles.induct) simp_all

lemma completeCycles_even: "completeCycles h \<Longrightarrow> even (length h)"
  by (induction h rule: completeCycles.induct) simp_all

lemma completeCycles_roles:
  "completeCycles h \<Longrightarrow> i < length h \<Longrightarrow> role (h ! i) = (if even i then ''user'' else ''model'')"
proof (induction h arbitrary: i rule: completeCycles.induct)
  case 1
  then show ?case by simp
next
  case (2 c)
  then show ?case by simp
next
  case (3 u m rest)
  show ?case
  proof (cases i)
    case 0
    with 3 show ?thesis by simp
  next
    case (Suc j)
    show ?thesis
    proof (cases j)
      case 0
      with Suc 3 show ?thesis by simp
    next
      case (Suc l)
      with \<open>i = Suc j\<close> 3 show ?thesis by simp
    qed
  qed
qed

section \<open>Dispatch of chat turns\<close>

lemma join_nonempty: "p \<noteq> [] \<Longrightarrow> join sep (p # ps) \<noteq> []"
  by (cases ps) simp_all

lemma defaultInstructions_nonempty: "defaultInstructions \<noteq> []"
  by (simp add: defaultInstructions_def)

lemma buildSystemInstruction_nonempty: "buildSystemInstruction config \<noteq> []"
proof (cases "config_baseInstructions config")
  case None
  then show ?thesis
    by (simp add: buildSystemInstruction_def Let_def join_nonempty defaultInstructions_nonempty)
next
  case (Some b)
  then show ?thesis
    by (simp add: buildSystemInstruction_def Let_def join_nonempty defaultInstructions_nonempty)
qed

lemma callGemini_sent:
  "fst (callGemini env prompt hist (Some (buildSystemInstruction config))) =
     [ChatCall \<lparr>chat_model = MODEL env,
               chat_systemInstruction = Some (buildSystemInstruction config),
               chat_history = hist,
               chat_message = prompt\<rparr>]"
  by (simp add: callGemini_fst buildSystemInstruction_nonempty)

lemma callGemini_snd:
  "snd (callGemini env prompt hist (Some (buildSystemInstruction config))) =
     (case sendMessage env \<lparr>chat_model = MODEL env,
               chat_systemInstruction = Some (buildSystemInstruction config),
               chat_history = hist,
               chat_message = prompt\<rparr> of
        Inl error \<Rightarrow> Inl error
      | Inr responseText \<Rightarrow>
          Inr (case responseText of None \<Rightarrow> [] | Some t \<Rightarrow> t,
               hist @ [Content ''user'' [prompt],
                       Content ''model'' [case responseText of None \<Rightarrow> [] | Some t \<Rightarrow> t]]))"
  by (simp add: callGemini_def Let_def buildSystemInstruction_nonempty split: sum.split)

lemma callToolHandler_gemini:
  "name request = ''gemini'' \<Longrightarrow>
     callToolHandler env request sessions =
       geminiBranch env (args request) (cleanupSessions (now env 0) sessions)"
  by (simp add: callToolHandler_def dispatchTool_def)

lemma callToolHandler_reply:
  "name request = ''gemini-reply'' \<Longrightarrow>
     callToolHandler env request sessions =
       geminiReplyBranch env (args request) (cleanupSessions (now env 0) sessions)"
  by (simp add: callToolHandler_def dispatchTool_def)

lemma geminiBranch_sent:
  "sent (geminiBranch env a sessions) =
     [ChatCall \<lparr>chat_model = MODEL env,
               chat_systemInstruction =
                 Some (buildSystemInstruction
                   \<lparr>config_cwd = arg_cwd a,
                    config_sandbox = arg_sandbox a,
                    config_baseInstructions = arg_baseInstructions a,
                    config_developerInstructions = arg_developerInstructions a\<rparr>),
               chat_history = [],
               chat_message = arg_prompt a\<rparr>]"
  unfolding geminiBranch_def Let_def by (simp add: callGemini_sent split: sum.split)

lemma geminiBranch_thrown:
  assumes "sendMessage env \<lparr>chat_model = MODEL env,
               chat_systemInstruction =
                 Some (buildSystemInstruction
                   \<lparr>config_cwd = arg_cwd a,
                    config_sandbox = arg_sandbox a,
                    config_baseInstructions = arg_baseInstructions a,
                    config_developerInstructions = arg_developerInstructions a\<rparr>),
               chat_history = [],
               chat_message = arg_prompt a\<rparr> = Inl error"
  shows "reply (geminiBranch env a sessions) = caught error"
    and "store (geminiBranch env a sessions) = sessions"
  unfolding geminiBranch_def Let_def using assms by (simp_all add: callGemini_snd)

lemma geminiBranch_returned:
  assumes "sendMessage env \<lparr>chat_model = MODEL env,
               chat_systemInstruction =
                 Some (buildSystemInstruction
                   \<lparr>config_cwd = arg_cwd a,
                    config_sandbox = arg_sandbox a,
                    config_baseInstructions = arg_baseInstructions a,
                    config_developerInstructions = arg_developerInstructions a\<rparr>),
               chat_history = [],
               chat_message = arg_prompt a\<rparr> = Inr responseText"
  shows "reply (geminiBranch env a sessions) =
           \<lparr>content = [TextBlock (case responseText of None \<Rightarrow> [] | Some t \<Rightarrow> t)],
            isError = False,
            meta_conversationId = Some (generateConversationId (now env 1) (randomSuffix env))\<rparr>"
    and "store (geminiBranch env a sessions) =
           AList.update (generateConversationId (now env 1) (randomSuffix env))
             \<lparr>history = [Content ''user'' [arg_prompt a],
                         Content ''model'' [case responseText of None \<Rightarrow> [] | Some t \<Rightarrow> t]],
              createdAt = now env 2,
              lastUsed = now env 3,
              cwd = arg_cwd a\<rparr> sessions"
  unfolding geminiBranch_def Let_def using assms by (simp_all add: callGemini_snd)

lemma geminiReplyBranch_unknown:
  assumes "map_of sessions (arg_conversationId a) = None"
  shows "geminiReplyBranch env a sessions =
           \<lparr>reply = \<lparr>content = [TextBlock (''Error: Conversation '' @ arg_conversationId a @
                                '' not found. It may have expired or never existed.'')],
                    isError = True,
                    meta_conversationId = None\<rparr>,
            store = sessions,
            sent = []\<rparr>"
  unfolding geminiReplyBranch_def using assms by simp

lemma geminiReplyBranch_sent:
  assumes "map_of sessions (arg_conversationId a) = Some session"
  shows "sent (geminiReplyBranch env a sessions) =
     [ChatCall \<lparr>chat_model = MODEL env,
               chat_systemInstruction =
                 Some (buildSystemInstruction
                   \<lparr>config_cwd = cwd session,
                    config_sandbox = None,
                    config_baseInstructions = None,
                    config_developerInstructions = None\<rparr>),
               chat_history = history session,
               chat_message = arg_prompt a\<rparr>]"
  unfolding geminiReplyBranch_def Let_def using assms
  by (simp add: callGemini_sent split: sum.split)

lemma geminiReplyBranch_thrown:
  assumes "map_of sessions (arg_conversationId a) = Some session"
    and "sendMessage env \<lparr>chat_model = MODEL env,
               chat_systemInstruction =
                 Some (buildSystemInstruction
                   \<lparr>config_cwd = cwd session,
                    config_sandbox = None,
                    config_baseInstructions = None,
                    config_developerInstructions = None\<rparr>),
               chat_history = history session,
               chat_message = arg_prompt a\<rparr> = Inl error"
  shows "reply (geminiReplyBranch env a sessions) = caught error"
    and "store (geminiReplyBranch env a sessions) = sessions"
  unfolding geminiReplyBranch_def Let_def using assms by (simp_all add: callGemini_snd)

lemma geminiReplyBranch_returned:
  assumes "map_of sessions (arg_conversationId a) = Some session"
    and "sendMessage env \<lparr>chat_model = MODEL env,
               chat_systemInstruction =
                 Some (buildSystemInstruction
                   \<lparr>config_cwd = cwd session,
                    config_sandbox = None,
                    config_baseInstructions = None,
                    config_developerInstructions = None\<rparr>),
               chat_history = history session,
               chat_message = arg_prompt a\<rparr> = Inr responseText"
  shows "reply (geminiReplyBranch env a sessions) =
           \<lparr>content = [TextBlock (case responseText of None \<Rightarrow> [] | Some t \<Rightarrow> t)],
            isError = False,
            meta_conversationId = Some (arg_conversationId a)\<rparr>"
    and "store (geminiReplyBranch env a sessions) =
           AList.update (arg_conversationId a)
             (session\<lparr>history := history session @
                         [Content ''user'' [arg_prompt a],
                          Content ''model'' [case responseText of None \<Rightarrow> [] | Some t \<Rightarrow> t]],
                      lastUsed := now env 1\<rparr>) sessions"
  unfolding geminiReplyBranch_def Let_def using assms by (simp_all add: callGemini_snd)


lemma geminiImageBranch_store: "store (geminiImageBranch env a sessions) = sessions"
  unfolding geminiImageBranch_def Let_def by (simp split: sum.split)

lemma callToolHandler_image_name:
  "name request = ''gemini-image'' \<Longrightarrow>
     callToolHandler env request sessions =
       geminiImageBranch env (args request) (cleanupSessions (now env 0) sessions)"
  by (simp add: callToolHandler_def dispatchTool_def)

lemma callToolHandler_unknown:
  "name request \<noteq> ''gemini'' \<Longrightarrow> name request \<noteq> ''gemini-reply'' \<Longrightarrow>
   name request \<noteq> ''gemini-image'' \<Longrightarrow>
     store (callToolHandler env request sessions) = cleanupSessions (now env 0) sessions"
  by (simp add: callToolHandler_def dispatchTool_def)

lemma isError_caught: "isError (caught error)"
  by (simp add: caught_def)

lemma geminiBranch_cases:
  obtains (thrown) error where
      "reply (geminiBranch env a sessions) = caught error"
      "store (geminiBranch env a sessions) = sessions"
  | (returned) answer where
      "reply (geminiBranch env a sessions) =
         \<lparr>content = [TextBlock answer], isError = False,
          meta_conversationId = Some (generateConversationId (now env 1) (randomSuffix env))\<rparr>"
      "store (geminiBranch env a sessions) =
         AList.update (generateConversationId (now env 1) (randomSuffix env))
           \<lparr>history = [Content ''user'' [arg_prompt a], Content ''model'' [answer]],
            createdAt = now env 2, lastUsed = now env 3, cwd = arg_cwd a\<rparr> sessions"
proof (cases "sendMessage env \<lparr>chat_model = MODEL env,
               chat_systemInstruction =
                 Some (buildSystemInstruction
                   \<lparr>config_cwd = arg_cwd a,
                    config_sandbox = arg_sandbox a,
                    config_baseInstructions = arg_baseInstructions a,
                    config_developerInstructions = arg_developerInstructions a\<rparr>),
               chat_history = [],
               chat_message = arg_prompt a\<rparr>")
  case (Inl error)
  then show ?thesis using thrown geminiBranch_thrown by blast
next
  case (Inr responseText)
  then show ?thesis using returned geminiBranch_returned by blast
qed

lemma geminiReplyBranch_cases:
  obtains (unknown)
      "map_of sessions (arg_conversationId a) = None"
      "reply (geminiReplyBranch env a sessions) =
         \<lparr>content = [TextBlock (''Error: Conversation '' @ arg_conversationId a @
                                '' not found. It may have expired or never existed.'')],
          isError = True, meta_conversationId = None\<rparr>"
      "store (geminiReplyBranch env a sessions) = sessions"
  | (thrown) session error where
      "map_of sessions (arg_conversationId a) = Some session"
      "reply (geminiReplyBranch env a sessions) = caught error"
      "store (geminiReplyBranch env a sessions) = sessions"
  | (returned) session answer where
      "map_of sessions (arg_conversationId a) = Some session"
      "reply (geminiReplyBranch env a sessions) =
         \<lparr>content = [TextBlock answer], isError = False,
          meta_conversationId = Some (arg_conversationId a)\<rparr>"
      "store (geminiReplyBranch env a sessions) =
         AList.update (arg_conversationId a)
           (session\<lparr>history := history session @
                       [Content ''user'' [arg_prompt a], Content ''model'' [answer]],
                    lastUsed := now env 1\<rparr>) sessions"
proof (cases "map_of sessions (arg_conversationId a)")
  case None
  then show ?thesis using unknown geminiReplyBranch_unknown [OF None, of env] by simp
next
  case (Some session)
  show ?thesis
  proof (cases "sendMessage env \<lparr>chat_model = MODEL env,
               chat_systemInstruction =
                 Some (buildSystemInstruction
                   \<lparr>config_cwd = cwd session,
                    config_sandbox = None,
                    config_baseInstructions = None,
                    config_developerInstructions = None\<rparr>),
               chat_history = history session,
               chat_message = arg_prompt a\<rparr>")
    case (Inl error)
    then show ?thesis using thrown Some geminiReplyBranch_thrown by blast
  next
    case (Inr responseText)
    then show ?thesis using returned Some geminiReplyBranch_returned by blast
  qed
qed

lemma list_all_update:
  "P (k, v) \<Longrightarrow> list_all P xs \<Longrightarrow> list_all P (AList.update k v xs)"
  by (induction xs) auto

lemma storeComplete_cleanup:
  "storeComplete sessions \<Longrightarrow> storeComplete (cleanupSessions dateNow sessions)"
  using cleanupSessions_subset [of dateNow sessions]
  by (auto simp add: storeComplete_def list_all_iff)

lemma storeComplete_lookup:
  "storeComplete sessions \<Longrightarrow> map_of sessions k = Some session \<Longrightarrow>
     completeCycles (history session)"
  by (auto simp add: storeComplete_def list_all_iff dest!: map_of_SomeD)

lemma storeComplete_geminiBranch:
  assumes "storeComplete sessions"
  shows "storeComplete (store (geminiBranch env a sessions))"
proof (cases rule: geminiBranch_cases [of env a sessions])
  case (thrown error)
  with assms show ?thesis by simp
next
  case (returned answer)
  with assms show ?thesis
    by (simp add: storeComplete_def list_all_update)
qed

lemma storeComplete_geminiReplyBranch:
  assumes "storeComplete sessions"
  shows "storeComplete (store (geminiReplyBranch env a sessions))"
proof (cases rule: geminiReplyBranch_cases [of sessions a env])
  case unknown
  with assms show ?thesis by simp
next
  case (thrown session error)
  with assms show ?thesis by simp
next
  case (returned session answer)
  from assms returned(1) have "completeCycles (history session)"
    by (rule storeComplete_lookup)
  then have "completeCycles (history session @
               [Content ''user'' [arg_prompt a], Content ''model'' [answer]])"
    by (rule completeCycles_append)
  with assms returned(3) show ?thesis
    by (simp add: storeComplete_def list_all_update)
qed

lemma storeComplete_callToolHandler:
  assumes "storeComplete sessions"
  shows "storeComplete (store (callToolHandler env request sessions))"
proof -
  have c: "storeComplete (cleanupSessions (now env 0) sessions)"
    using assms by (rule storeComplete_cleanup)
  consider "name request = ''gemini''" | "name request = ''gemini-reply''"
    | "name request = ''gemini-image''"
    | "name request \<noteq> ''gemini''" "name request \<noteq> ''gemini-reply''"
      "name request \<noteq> ''gemini-image''"
    by blast
  then show ?thesis
  proof cases
    case 1
    then show ?thesis
      using c by (simp add: callToolHandler_gemini storeComplete_geminiBranch)
  next
    case 2
    then show ?thesis
      using c by (simp add: callToolHandler_reply storeComplete_geminiReplyBranch)
  next
    case 3
    then show ?thesis
      using c by (simp add: callToolHandler_image_name geminiImageBranch_store)
  next
    case 4
    then show ?thesis
      using c by (simp add: callToolHandler_unknown)
  qed
qed

lemma storeComplete_runDispatches:
  "storeComplete sessions \<Longrightarrow> storeComplete (runDispatches steps sessions)"
  by (induction steps arbitrary: sessions) (simp_all add: storeComplete_callToolHandler)


lemma cleanupSessions_absent:
  "map_of sessions k = None \<Longrightarrow> map_of (cleanupSessions dateNow sessions) k = None"
  using cleanupSessions_subset [of dateNow sessions]
  by (auto simp add: map_of_eq_None_iff)

text \<open>
  The store keeps one entry per conversation id through every dispatch, so the stores
  that arise from the empty one satisfy the hypothesis of the sweep property.
\<close>

lemma distinct_callToolHandler:
  assumes "distinct (map fst sessions)"
  shows "distinct (map fst (store (callToolHandler env request sessions)))"
proof -
  have c: "distinct (map fst (cleanupSessions (now env 0) sessions))"
    using assms by (rule cleanupSessions_distinct)
  consider "name request = ''gemini''" | "name request = ''gemini-reply''"
    | "name request = ''gemini-image''"
    | "name request \<noteq> ''gemini''" "name request \<noteq> ''gemini-reply''"
      "name request \<noteq> ''gemini-image''"
    by blast
  then show ?thesis
  proof cases
    case 1
    show ?thesis
      unfolding callToolHandler_gemini [OF 1]
      by (cases rule: geminiBranch_cases
            [of env "args request" "cleanupSessions (now env 0) sessions"])
         (simp_all add: c AList.distinct_update)
  next
    case 2
    show ?thesis
      unfolding callToolHandler_reply [OF 2]
      by (cases rule: geminiReplyBranch_cases
            [of "cleanupSessions (now env 0) sessions" "args request" env])
         (simp_all add: c AList.distinct_update)
  next
    case 3
    then show ?thesis
      using c by (simp add: callToolHandler_image_name geminiImageBranch_store)
  next
    case 4
    then show ?thesis
      using c by (simp add: callToolHandler_unknown)
  qed
qed

lemma distinct_runDispatches:
  "distinct (map fst sessions) \<Longrightarrow> distinct (map fst (runDispatches steps sessions))"
  by (induction steps arbitrary: sessions) (simp_all add: distinct_callToolHandler)

section \<open>Session histories\<close>

text \<open>
  C5 (histories are whole reply cycles). After any run of dispatches from the empty
  store, every stored session has a history of even length whose entries are user,
  model, user, model, and so on. A successful initial turn stores the two entries for
  its prompt and the reply, and a successful continue turn stores the history it found
  followed by exactly two entries, the user turn and then the model turn.
\<close>

theorem C5_histories_are_complete_cycles:
  "(\<forall>k session. map_of (runDispatches steps []) k = Some session \<longrightarrow>
       even (length (history session)) \<and>
       (\<forall>i < length (history session).
          role (history session ! i) = (if even i then ''user'' else ''model'')))
   \<and> (name request = ''gemini'' \<and> \<not> isError (reply (callToolHandler env request sessions)) \<longrightarrow>
        (\<exists>answer stored.
           content (reply (callToolHandler env request sessions)) = [TextBlock answer] \<and>
           map_of (store (callToolHandler env request sessions))
             (generateConversationId (now env 1) (randomSuffix env)) = Some stored \<and>
           history stored =
             [Content ''user'' [arg_prompt (args request)], Content ''model'' [answer]]))
   \<and> (name request = ''gemini-reply'' \<and>
        \<not> isError (reply (callToolHandler env request sessions)) \<longrightarrow>
        (\<exists>answer session stored.
           content (reply (callToolHandler env request sessions)) = [TextBlock answer] \<and>
           map_of (cleanupSessions (now env 0) sessions)
             (arg_conversationId (args request)) = Some session \<and>
           map_of (store (callToolHandler env request sessions))
             (arg_conversationId (args request)) = Some stored \<and>
           history stored =
             history session @
               [Content ''user'' [arg_prompt (args request)], Content ''model'' [answer]] \<and>
           length (history stored) = length (history session) + 2))"
proof (intro conjI allI impI)
  fix k session
  assume "map_of (runDispatches steps []) k = Some session"
  moreover have "storeComplete (runDispatches steps [])"
    by (rule storeComplete_runDispatches) (simp add: storeComplete_def)
  ultimately have c: "completeCycles (history session)"
    using storeComplete_lookup by blast
  then show "even (length (history session))"
    by (rule completeCycles_even)
  fix i
  assume "i < length (history session)"
  with c show "role (history session ! i) = (if even i then ''user'' else ''model'')"
    by (rule completeCycles_roles)
next
  assume a: "name request = ''gemini'' \<and> \<not> isError (reply (callToolHandler env request sessions))"
  then have h: "callToolHandler env request sessions =
                  geminiBranch env (args request) (cleanupSessions (now env 0) sessions)"
    by (simp add: callToolHandler_gemini)
  show "\<exists>answer stored.
           content (reply (callToolHandler env request sessions)) = [TextBlock answer] \<and>
           map_of (store (callToolHandler env request sessions))
             (generateConversationId (now env 1) (randomSuffix env)) = Some stored \<and>
           history stored =
             [Content ''user'' [arg_prompt (args request)], Content ''model'' [answer]]"
  proof (cases rule: geminiBranch_cases
      [of env "args request" "cleanupSessions (now env 0) sessions"])
    case (thrown error)
    with a h show ?thesis by (simp add: isError_caught)
  next
    case (returned answer)
    then show ?thesis
      unfolding h by (simp add: AList.update_conv')
  qed
next
  assume a: "name request = ''gemini-reply'' \<and>
             \<not> isError (reply (callToolHandler env request sessions))"
  then have h: "callToolHandler env request sessions =
                  geminiReplyBranch env (args request) (cleanupSessions (now env 0) sessions)"
    by (simp add: callToolHandler_reply)
  show "\<exists>answer session stored.
           content (reply (callToolHandler env request sessions)) = [TextBlock answer] \<and>
           map_of (cleanupSessions (now env 0) sessions)
             (arg_conversationId (args request)) = Some session \<and>
           map_of (store (callToolHandler env request sessions))
             (arg_conversationId (args request)) = Some stored \<and>
           history stored =
             history session @
               [Content ''user'' [arg_prompt (args request)], Content ''model'' [answer]] \<and>
           length (history stored) = length (history session) + 2"
  proof (cases rule: geminiReplyBranch_cases
      [of "cleanupSessions (now env 0) sessions" "args request" env])
    case unknown
    with a h show ?thesis by simp
  next
    case (thrown session error)
    with a h show ?thesis by (simp add: isError_caught)
  next
    case (returned session answer)
    then show ?thesis
      unfolding h by (simp add: AList.update_conv')
  qed
qed

text \<open>
  A run on the sample inputs: an initial turn, then a continue turn on the id it
  returned.
\<close>

lemma sample_initial_outcome:
  "callToolHandler sample_env sample_initial [] =
     \<lparr>reply = \<lparr>content = [TextBlock ''Hello''], isError = False,
               meta_conversationId = Some ''gemini-7200001-k3x9q2a''\<rparr>,
      store = [(''gemini-7200001-k3x9q2a'',
                \<lparr>history = [Content ''user'' [''hello''], Content ''model'' [''Hello'']],
                 createdAt = 7200002, lastUsed = 7200003, cwd = Some ''/srv/app''\<rparr>)],
      sent = [ChatCall \<lparr>chat_model = ''gemini-3-pro-preview'',
                        chat_systemInstruction =
                          Some (defaultInstructions @ ''\<newline>\<newline>Working directory: /srv/app''),
                        chat_history = [],
                        chat_message = ''hello''\<rparr>]\<rparr>"
  by (simp add: callToolHandler_def dispatchTool_def geminiBranch_def callGemini_def
        cleanupSessions_def buildSystemInstruction_def generateConversationId_def
        show_int_def show_nat.simps MODEL_def sample_env_def sample_initial_def
        sample_args_def Let_def defaultInstructions_def)


lemma sample_reply_outcome:
  "callToolHandler sample_env sample_reply
     [(''gemini-7200001-k3x9q2a'',
       \<lparr>history = [Content ''user'' [''hello''], Content ''model'' [''Hello'']],
        createdAt = 7200002, lastUsed = 7200003, cwd = Some ''/srv/app''\<rparr>)] =
     \<lparr>reply = \<lparr>content = [TextBlock ''Hello''], isError = False,
               meta_conversationId = Some ''gemini-7200001-k3x9q2a''\<rparr>,
      store = [(''gemini-7200001-k3x9q2a'',
                \<lparr>history = [Content ''user'' [''hello''], Content ''model'' [''Hello''],
                            Content ''user'' [''again''], Content ''model'' [''Hello'']],
                 createdAt = 7200002, lastUsed = 7200001, cwd = Some ''/srv/app''\<rparr>)],
      sent = [ChatCall \<lparr>chat_model = ''gemini-3-pro-preview'',
                        chat_systemInstruction =
                          Some (defaultInstructions @ ''\<newline>\<newline>Working directory: /srv/app''),
                        chat_history =
                          [Content ''user'' [''hello''], Content ''model'' [''Hello'']],
                        chat_message = ''again''\<rparr>]\<rparr>"
  by (simp add: callToolHandler_def dispatchTool_def geminiReplyBranch_def callGemini_def
        cleanupSessions_def buildSystemInstruction_def MODEL_def sample_env_def
        sample_reply_def sample_args_def Let_def defaultInstructions_def)

theorem C5_witness:
  "map_of (runDispatches [(sample_env, sample_initial), (sample_env, sample_reply)] [])
     ''gemini-7200001-k3x9q2a'' =
     Some \<lparr>history = [Content ''user'' [''hello''], Content ''model'' [''Hello''],
                      Content ''user'' [''again''], Content ''model'' [''Hello'']],
           createdAt = 7200002, lastUsed = 7200001, cwd = Some ''/srv/app''\<rparr>
   \<and> even (length [Content ''user'' [''hello''], Content ''model'' [''Hello''],
                    Content ''user'' [''again''], Content ''model'' [''Hello'']])
   \<and> name sample_initial = ''gemini''
   \<and> \<not> isError (reply (callToolHandler sample_env sample_initial []))
   \<and> name sample_reply = ''gemini-reply''
   \<and> \<not> isError (reply (callToolHandler sample_env sample_reply
          [(''gemini-7200001-k3x9q2a'',
            \<lparr>history = [Content ''user'' [''hello''], Content ''model'' [''Hello'']],
             createdAt = 7200002, lastUsed = 7200003, cwd = Some ''/srv/app''\<rparr>)]))
   \<and> (\<exists>answer stored.
         map_of (store (callToolHandler sample_env sample_initial []))
           (generateConversationId (now sample_env 1) (randomSuffix sample_env)) = Some stored \<and>
         history stored = [Content ''user'' [''hello''], Content ''model'' [answer]])
   \<and> (\<exists>stored.
         map_of (store (callToolHandler sample_env sample_reply
           [(''gemini-7200001-k3x9q2a'',
             \<lparr>history = [Content ''user'' [''hello''], Content ''model'' [''Hello'']],
              createdAt = 7200002, lastUsed = 7200003, cwd = Some ''/srv/app''\<rparr>)]))
           ''gemini-7200001-k3x9q2a'' = Some stored \<and>
         length (history stored) = 2 + 2)"
proof -
  let ?s1 = "[(''gemini-7200001-k3x9q2a'',
            \<lparr>history = [Content ''user'' [''hello''], Content ''model'' [''Hello'']],
             createdAt = 7200002, lastUsed = 7200003, cwd = Some ''/srv/app''\<rparr>)]"
  let ?final = "\<lparr>history = [Content ''user'' [''hello''], Content ''model'' [''Hello''],
                      Content ''user'' [''again''], Content ''model'' [''Hello'']],
           createdAt = 7200002, lastUsed = 7200001, cwd = Some ''/srv/app''\<rparr>"
  have run: "map_of (runDispatches [(sample_env, sample_initial), (sample_env, sample_reply)] [])
               ''gemini-7200001-k3x9q2a'' = Some ?final"
    by (simp add: sample_initial_outcome sample_reply_outcome)
  have n1: "name sample_initial = ''gemini''"
    by (simp add: sample_initial_def)
  have e1: "\<not> isError (reply (callToolHandler sample_env sample_initial []))"
    by (simp add: sample_initial_outcome)
  have n2: "name sample_reply = ''gemini-reply''"
    by (simp add: sample_reply_def)
  have e2: "\<not> isError (reply (callToolHandler sample_env sample_reply ?s1))"
    by (simp add: sample_reply_outcome)
  note inst1 = C5_histories_are_complete_cycles
      [of "[(sample_env, sample_initial), (sample_env, sample_reply)]"
          sample_initial sample_env "[]"]
  note inst2 = C5_histories_are_complete_cycles
      [of "[]" sample_reply sample_env ?s1]
  from inst1 run have ev: "even (length (history ?final))"
    by blast
  from inst1 n1 e1 have g: "\<exists>answer stored.
         map_of (store (callToolHandler sample_env sample_initial []))
           (generateConversationId (now sample_env 1) (randomSuffix sample_env)) = Some stored \<and>
         history stored = [Content ''user'' [arg_prompt (args sample_initial)],
                           Content ''model'' [answer]]"
    by blast
  from inst2 n2 e2 have r: "\<exists>answer session stored.
           content (reply (callToolHandler sample_env sample_reply ?s1)) = [TextBlock answer] \<and>
           map_of (cleanupSessions (now sample_env 0) ?s1)
             (arg_conversationId (args sample_reply)) = Some session \<and>
           map_of (store (callToolHandler sample_env sample_reply ?s1))
             (arg_conversationId (args sample_reply)) = Some stored \<and>
           history stored =
             history session @
               [Content ''user'' [arg_prompt (args sample_reply)], Content ''model'' [answer]] \<and>
           length (history stored) = length (history session) + 2"
    by blast
  have r': "\<exists>stored.
         map_of (store (callToolHandler sample_env sample_reply ?s1))
           ''gemini-7200001-k3x9q2a'' = Some stored \<and>
         length (history stored) = 2 + 2"
    using r by (auto simp add: sample_reply_def sample_args_def sample_env_def
                  cleanupSessions_def)
  have g': "\<exists>answer stored.
         map_of (store (callToolHandler sample_env sample_initial []))
           (generateConversationId (now sample_env 1) (randomSuffix sample_env)) = Some stored \<and>
         history stored = [Content ''user'' [''hello''], Content ''model'' [answer]]"
    using g by (simp add: sample_initial_def sample_args_def)
  from run ev n1 e1 n2 e2 g' r' show ?thesis
    by simp
qed

section \<open>Error paths\<close>

text \<open>
  C6 (continue turn on an unknown conversation). For a continue-turn request whose
  conversation id is not in the store when it is looked up, the result is the response
  flagged as an error that says the conversation was not found, no remote call is made,
  and the store is left as it was: the \<open>try\<close> block returns the store it was given,
  and the whole dispatch returns the store as the opening sweep left it, so every entry of
  it was there before and no session is created. An id absent before the sweep is absent
  after it.
\<close>

theorem C6_unknown_conversation_is_an_error:
  assumes "name request = ''gemini-reply''"
  shows
    "(map_of sessions (arg_conversationId (args request)) = None \<longrightarrow>
        dispatchTool env request sessions =
          \<lparr>reply = \<lparr>content = [TextBlock (''Error: Conversation '' @
                                  arg_conversationId (args request) @
                                  '' not found. It may have expired or never existed.'')],
                    isError = True,
                    meta_conversationId = None\<rparr>,
           store = sessions,
           sent = []\<rparr>)
     \<and> (map_of (cleanupSessions (now env 0) sessions) (arg_conversationId (args request)) = None
          \<longrightarrow>
        callToolHandler env request sessions =
          \<lparr>reply = \<lparr>content = [TextBlock (''Error: Conversation '' @
                                  arg_conversationId (args request) @
                                  '' not found. It may have expired or never existed.'')],
                    isError = True,
                    meta_conversationId = None\<rparr>,
           store = cleanupSessions (now env 0) sessions,
           sent = []\<rparr>
        \<and> set (store (callToolHandler env request sessions)) \<subseteq> set sessions
        \<and> map_of (store (callToolHandler env request sessions))
              (arg_conversationId (args request)) = None)
     \<and> (map_of sessions (arg_conversationId (args request)) = None \<longrightarrow>
          map_of (cleanupSessions (now env 0) sessions) (arg_conversationId (args request)) = None
          \<and> isError (reply (callToolHandler env request sessions))
          \<and> set (store (callToolHandler env request sessions)) \<subseteq> set sessions)"
proof (intro conjI impI)
  assume "map_of sessions (arg_conversationId (args request)) = None"
  then show "dispatchTool env request sessions =
          \<lparr>reply = \<lparr>content = [TextBlock (''Error: Conversation '' @
                                  arg_conversationId (args request) @
                                  '' not found. It may have expired or never existed.'')],
                    isError = True,
                    meta_conversationId = None\<rparr>,
           store = sessions,
           sent = []\<rparr>"
    using assms by (simp add: dispatchTool_def geminiReplyBranch_unknown)
next
  assume swept: "map_of (cleanupSessions (now env 0) sessions)
                   (arg_conversationId (args request)) = None"
  then show h: "callToolHandler env request sessions =
          \<lparr>reply = \<lparr>content = [TextBlock (''Error: Conversation '' @
                                  arg_conversationId (args request) @
                                  '' not found. It may have expired or never existed.'')],
                    isError = True,
                    meta_conversationId = None\<rparr>,
           store = cleanupSessions (now env 0) sessions,
           sent = []\<rparr>"
    using assms by (simp add: callToolHandler_reply geminiReplyBranch_unknown)
  show "set (store (callToolHandler env request sessions)) \<subseteq> set sessions"
    unfolding h using cleanupSessions_subset [of "now env 0" sessions] by simp
  show "map_of (store (callToolHandler env request sessions))
              (arg_conversationId (args request)) = None"
    unfolding h using swept by simp
next
  assume absent: "map_of sessions (arg_conversationId (args request)) = None"
  then show swept: "map_of (cleanupSessions (now env 0) sessions)
                      (arg_conversationId (args request)) = None"
    by (rule cleanupSessions_absent)
  then have h: "callToolHandler env request sessions =
          \<lparr>reply = \<lparr>content = [TextBlock (''Error: Conversation '' @
                                  arg_conversationId (args request) @
                                  '' not found. It may have expired or never existed.'')],
                    isError = True,
                    meta_conversationId = None\<rparr>,
           store = cleanupSessions (now env 0) sessions,
           sent = []\<rparr>"
    using assms by (simp add: callToolHandler_reply geminiReplyBranch_unknown)
  show "isError (reply (callToolHandler env request sessions))"
    unfolding h by simp
  show "set (store (callToolHandler env request sessions)) \<subseteq> set sessions"
    unfolding h using cleanupSessions_subset [of "now env 0" sessions] by simp
qed

text \<open>
  Two instances: an id that was never issued, on the empty store, and an id whose session,
  last used at 1000, is swept at clock reading 7200000 by the same dispatch.
\<close>

theorem C6_witness:
  "name sample_reply = ''gemini-reply''
   \<and> map_of [] (arg_conversationId (args sample_reply)) = (None :: ConversationSession option)
   \<and> callToolHandler sample_env sample_reply [] =
       \<lparr>reply = \<lparr>content = [TextBlock (''Error: Conversation gemini-7200001-k3x9q2a'' @
                               '' not found. It may have expired or never existed.'')],
                 isError = True,
                 meta_conversationId = None\<rparr>,
        store = [],
        sent = []\<rparr>
   \<and> map_of (cleanupSessions (now sample_env 0)
               [(''gemini-7200001-k3x9q2a'', sample_session 1000)])
        (arg_conversationId (args sample_reply)) = None
   \<and> isError (reply (callToolHandler sample_env sample_reply
                       [(''gemini-7200001-k3x9q2a'', sample_session 1000)]))
   \<and> store (callToolHandler sample_env sample_reply
               [(''gemini-7200001-k3x9q2a'', sample_session 1000)]) = []"
proof -
  have n: "name sample_reply = ''gemini-reply''"
    by (simp add: sample_reply_def)
  have absent: "map_of [] (arg_conversationId (args sample_reply)) =
                  (None :: ConversationSession option)"
    by simp
  have sweep: "cleanupSessions (now sample_env 0)
                 [(''gemini-7200001-k3x9q2a'', sample_session 1000)] = []"
    by (simp add: cleanupSessions_def sample_env_def sample_session_def)
  have e: "cleanupSessions (now sample_env 0) [] = []"
    by (simp add: cleanupSessions_def)
  note never = C6_unknown_conversation_is_an_error [OF n, of "[]" sample_env]
  note expired = C6_unknown_conversation_is_an_error
      [OF n, of "[(''gemini-7200001-k3x9q2a'', sample_session 1000)]" sample_env]
  from never absent e have 1: "callToolHandler sample_env sample_reply [] =
       \<lparr>reply = \<lparr>content = [TextBlock (''Error: Conversation gemini-7200001-k3x9q2a'' @
                               '' not found. It may have expired or never existed.'')],
                 isError = True,
                 meta_conversationId = None\<rparr>,
        store = [],
        sent = []\<rparr>"
    by (simp add: sample_reply_def sample_args_def)
  from expired sweep have 2:
    "callToolHandler sample_env sample_reply
       [(''gemini-7200001-k3x9q2a'', sample_session 1000)] =
       \<lparr>reply = \<lparr>content = [TextBlock (''Error: Conversation '' @
                                  arg_conversationId (args sample_reply) @
                                  '' not found. It may have expired or never existed.'')],
                 isError = True,
                 meta_conversationId = None\<rparr>,
        store = [],
        sent = []\<rparr>"
    by simp
  from n absent 1 2 sweep show ?thesis
    by simp
qed

text \<open>
  C7 (initial turn whose remote call fails). Take an initial-turn dispatch and the chat
  request it builds: the configured model, the system instruction composed from the four
  configuration arguments, an empty history and the prompt. When the remote service
  answers that request by throwing an \<open>Error\<close> with some message, the outcome is the
  response flagged as an error whose one text block is \<open>Gemini API error: \<close> followed
  by that message, with no conversation id; that one remote call; and the store as the
  opening sweep left it, every entry of which was there before, so no session is added.
  When the thrown value is not an \<open>Error\<close>, the same holds with its string rendering
  in place of the message.
\<close>

theorem C7_failed_initial_turn_creates_no_session:
  assumes "name request = ''gemini''"
  shows
    "(sendMessage env
        \<lparr>chat_model = MODEL env,
         chat_systemInstruction =
           Some (buildSystemInstruction
             \<lparr>config_cwd = arg_cwd (args request),
              config_sandbox = arg_sandbox (args request),
              config_baseInstructions = arg_baseInstructions (args request),
              config_developerInstructions = arg_developerInstructions (args request)\<rparr>),
         chat_history = [],
         chat_message = arg_prompt (args request)\<rparr> = Inl (ErrorObject message) \<longrightarrow>
      callToolHandler env request sessions =
        \<lparr>reply = \<lparr>content = [TextBlock (''Gemini API error: '' @ message)],
                  isError = True,
                  meta_conversationId = None\<rparr>,
         store = cleanupSessions (now env 0) sessions,
         sent = [ChatCall
                   \<lparr>chat_model = MODEL env,
                    chat_systemInstruction =
                      Some (buildSystemInstruction
                        \<lparr>config_cwd = arg_cwd (args request),
                         config_sandbox = arg_sandbox (args request),
                         config_baseInstructions = arg_baseInstructions (args request),
                         config_developerInstructions =
                           arg_developerInstructions (args request)\<rparr>),
                    chat_history = [],
                    chat_message = arg_prompt (args request)\<rparr>]\<rparr>
      \<and> set (store (callToolHandler env request sessions)) \<subseteq> set sessions)
     \<and> (sendMessage env
        \<lparr>chat_model = MODEL env,
         chat_systemInstruction =
           Some (buildSystemInstruction
             \<lparr>config_cwd = arg_cwd (args request),
              config_sandbox = arg_sandbox (args request),
              config_baseInstructions = arg_baseInstructions (args request),
              config_developerInstructions = arg_developerInstructions (args request)\<rparr>),
         chat_history = [],
         chat_message = arg_prompt (args request)\<rparr> = Inl (OtherValue rendering) \<longrightarrow>
      callToolHandler env request sessions =
        \<lparr>reply = \<lparr>content = [TextBlock (''Gemini API error: '' @ rendering)],
                  isError = True,
                  meta_conversationId = None\<rparr>,
         store = cleanupSessions (now env 0) sessions,
         sent = [ChatCall
                   \<lparr>chat_model = MODEL env,
                    chat_systemInstruction =
                      Some (buildSystemInstruction
                        \<lparr>config_cwd = arg_cwd (args request),
                         config_sandbox = arg_sandbox (args request),
                         config_baseInstructions = arg_baseInstructions (args request),
                         config_developerInstructions =
                           arg_developerInstructions (args request)\<rparr>),
                    chat_history = [],
                    chat_message = arg_prompt (args request)\<rparr>]\<rparr>
      \<and> set (store (callToolHandler env request sessions)) \<subseteq> set sessions)"
proof -
  let ?chat = "\<lparr>chat_model = MODEL env,
         chat_systemInstruction =
           Some (buildSystemInstruction
             \<lparr>config_cwd = arg_cwd (args request),
              config_sandbox = arg_sandbox (args request),
              config_baseInstructions = arg_baseInstructions (args request),
              config_developerInstructions = arg_developerInstructions (args request)\<rparr>),
         chat_history = [],
         chat_message = arg_prompt (args request)\<rparr>"
  have h: "callToolHandler env request sessions =
             geminiBranch env (args request) (cleanupSessions (now env 0) sessions)"
    using assms by (rule callToolHandler_gemini)
  have failed: "callToolHandler env request sessions =
                  \<lparr>reply = caught error,
                   store = cleanupSessions (now env 0) sessions,
                   sent = [ChatCall ?chat]\<rparr>"
    if t: "sendMessage env ?chat = Inl error" for error
  proof -
    have "reply (callToolHandler env request sessions) = caught error"
      and "store (callToolHandler env request sessions) = cleanupSessions (now env 0) sessions"
      unfolding h using geminiBranch_thrown [OF t] by simp_all
    moreover have "sent (callToolHandler env request sessions) = [ChatCall ?chat]"
      unfolding h by (rule geminiBranch_sent)
    ultimately show ?thesis
      by (cases "callToolHandler env request sessions") simp
  qed
  have kept: "set (cleanupSessions (now env 0) sessions) \<subseteq> set sessions"
    by (rule cleanupSessions_subset)
  show ?thesis
  proof (intro conjI impI)
    assume t: "sendMessage env ?chat = Inl (ErrorObject message)"
    show "callToolHandler env request sessions =
        \<lparr>reply = \<lparr>content = [TextBlock (''Gemini API error: '' @ message)],
                  isError = True,
                  meta_conversationId = None\<rparr>,
         store = cleanupSessions (now env 0) sessions,
         sent = [ChatCall ?chat]\<rparr>"
      using failed [OF t] by (simp add: caught_def)
    show "set (store (callToolHandler env request sessions)) \<subseteq> set sessions"
      using failed [OF t] kept by simp
  next
    assume t: "sendMessage env ?chat = Inl (OtherValue rendering)"
    show "callToolHandler env request sessions =
        \<lparr>reply = \<lparr>content = [TextBlock (''Gemini API error: '' @ rendering)],
                  isError = True,
                  meta_conversationId = None\<rparr>,
         store = cleanupSessions (now env 0) sessions,
         sent = [ChatCall ?chat]\<rparr>"
      using failed [OF t] by (simp add: caught_def)
    show "set (store (callToolHandler env request sessions)) \<subseteq> set sessions"
      using failed [OF t] kept by simp
  qed
qed

text \<open>
  Two instances, each on a store with one live session, which is kept: the remote call
  throws the \<open>Error\<close> \<open>quota exceeded\<close>, and the remote call throws the string
  \<open>timeout\<close>.
\<close>

theorem C7_witness:
  "name sample_initial = ''gemini''
   \<and> sendMessage failing_env
        \<lparr>chat_model = ''gemini-3-pro-preview'',
         chat_systemInstruction =
           Some (defaultInstructions @ ''\<newline>\<newline>Working directory: /srv/app''),
         chat_history = [],
         chat_message = ''hello''\<rparr> = Inl (ErrorObject ''quota exceeded'')
   \<and> callToolHandler failing_env sample_initial
        [(''gemini-7000000-abc1234'', sample_session 7000000)] =
       \<lparr>reply = \<lparr>content = [TextBlock ''Gemini API error: quota exceeded''],
                 isError = True,
                 meta_conversationId = None\<rparr>,
        store = [(''gemini-7000000-abc1234'', sample_session 7000000)],
        sent = [ChatCall
                  \<lparr>chat_model = ''gemini-3-pro-preview'',
                   chat_systemInstruction =
                     Some (defaultInstructions @ ''\<newline>\<newline>Working directory: /srv/app''),
                   chat_history = [],
                   chat_message = ''hello''\<rparr>]\<rparr>
   \<and> sendMessage (failing_env\<lparr>sendMessage := \<lambda>r. Inl (OtherValue ''timeout'')\<rparr>)
        \<lparr>chat_model = ''gemini-3-pro-preview'',
         chat_systemInstruction =
           Some (defaultInstructions @ ''\<newline>\<newline>Working directory: /srv/app''),
         chat_history = [],
         chat_message = ''hello''\<rparr> = Inl (OtherValue ''timeout'')
   \<and> callToolHandler (failing_env\<lparr>sendMessage := \<lambda>r. Inl (OtherValue ''timeout'')\<rparr>)
        sample_initial [(''gemini-7000000-abc1234'', sample_session 7000000)] =
       \<lparr>reply = \<lparr>content = [TextBlock ''Gemini API error: timeout''],
                 isError = True,
                 meta_conversationId = None\<rparr>,
        store = [(''gemini-7000000-abc1234'', sample_session 7000000)],
        sent = [ChatCall
                  \<lparr>chat_model = ''gemini-3-pro-preview'',
                   chat_systemInstruction =
                     Some (defaultInstructions @ ''\<newline>\<newline>Working directory: /srv/app''),
                   chat_history = [],
                   chat_message = ''hello''\<rparr>]\<rparr>"
proof -
  let ?s = "[(''gemini-7000000-abc1234'', sample_session 7000000)]"
  let ?other = "failing_env\<lparr>sendMessage := \<lambda>r. Inl (OtherValue ''timeout'')\<rparr>"
  let ?chat = "\<lparr>chat_model = ''gemini-3-pro-preview'',
         chat_systemInstruction =
           Some (defaultInstructions @ ''\<newline>\<newline>Working directory: /srv/app''),
         chat_history = [],
         chat_message = ''hello''\<rparr>"
  have n: "name sample_initial = ''gemini''"
    by (simp add: sample_initial_def)
  have instruction: "buildSystemInstruction
             \<lparr>config_cwd = arg_cwd (args sample_initial),
              config_sandbox = arg_sandbox (args sample_initial),
              config_baseInstructions = arg_baseInstructions (args sample_initial),
              config_developerInstructions = arg_developerInstructions (args sample_initial)\<rparr> =
           defaultInstructions @ ''\<newline>\<newline>Working directory: /srv/app''"
    by (simp add: buildSystemInstruction_def sample_initial_def sample_args_def)
  have prompt: "arg_prompt (args sample_initial) = ''hello''"
    by (simp add: sample_initial_def sample_args_def)
  have model1: "MODEL failing_env = ''gemini-3-pro-preview''"
    and model2: "MODEL ?other = ''gemini-3-pro-preview''"
    by (simp_all add: MODEL_def failing_env_def)
  have f1: "sendMessage failing_env ?chat = Inl (ErrorObject ''quota exceeded'')"
    by (simp add: failing_env_def)
  have f2: "sendMessage ?other ?chat = Inl (OtherValue ''timeout'')"
    by simp
  have sweep1: "cleanupSessions (now failing_env 0) ?s = ?s"
    and sweep2: "cleanupSessions (now ?other 0) ?s = ?s"
    by (simp_all add: cleanupSessions_def failing_env_def sample_session_def)
  note inst1 = C7_failed_initial_turn_creates_no_session
      [OF n, where env = failing_env and sessions = ?s and message = "''quota exceeded''"
         and rendering = "''timeout''"]
  note inst2 = C7_failed_initial_turn_creates_no_session
      [OF n, where env = ?other and sessions = ?s and message = "''quota exceeded''"
         and rendering = "''timeout''"]
  from inst1 f1 have r1: "callToolHandler failing_env sample_initial ?s =
       \<lparr>reply = \<lparr>content = [TextBlock ''Gemini API error: quota exceeded''],
                 isError = True,
                 meta_conversationId = None\<rparr>,
        store = ?s,
        sent = [ChatCall ?chat]\<rparr>"
    unfolding instruction prompt model1 sweep1 by simp
  from inst2 f2 have r2: "callToolHandler ?other sample_initial ?s =
       \<lparr>reply = \<lparr>content = [TextBlock ''Gemini API error: timeout''],
                 isError = True,
                 meta_conversationId = None\<rparr>,
        store = ?s,
        sent = [ChatCall ?chat]\<rparr>"
    unfolding instruction prompt model2 sweep2 by simp
  from n f1 r1 f2 r2 show ?thesis
    by blast
qed

section \<open>Frame of a continue turn\<close>

text \<open>
  C9 (what a successful continue turn changes). A continue-turn dispatch that answers
  without error found a session under the id; the store it leaves is the swept store with
  that one entry replaced by the same session with a longer \<open>history\<close> and a new
  \<open>lastUsed\<close>, so \<open>createdAt\<close> and \<open>cwd\<close> are as they were and every other
  entry is untouched; and the system instruction it sent is built from the stored
  \<open>cwd\<close> alone. The stored \<open>cwd\<close> is the \<open>cwd\<close> argument of the initial turn that
  created the session.
\<close>

theorem C9_reply_changes_history_and_lastUsed_only:
  "(name request = ''gemini-reply'' \<and>
    \<not> isError (reply (callToolHandler env request sessions)) \<longrightarrow>
      (\<exists>session answer.
         map_of (cleanupSessions (now env 0) sessions) (arg_conversationId (args request)) =
           Some session
         \<and> store (callToolHandler env request sessions) =
             AList.update (arg_conversationId (args request))
               (session\<lparr>history := history session @
                           [Content ''user'' [arg_prompt (args request)],
                            Content ''model'' [answer]],
                        lastUsed := now env 1\<rparr>)
               (cleanupSessions (now env 0) sessions)
         \<and> map_of (store (callToolHandler env request sessions)) =
             (map_of (cleanupSessions (now env 0) sessions))
               (arg_conversationId (args request) \<mapsto>
                  session\<lparr>history := history session @
                             [Content ''user'' [arg_prompt (args request)],
                              Content ''model'' [answer]],
                          lastUsed := now env 1\<rparr>)
         \<and> (\<exists>stored.
               map_of (store (callToolHandler env request sessions))
                 (arg_conversationId (args request)) = Some stored
               \<and> createdAt stored = createdAt session
               \<and> cwd stored = cwd session)
         \<and> chatRequests (sent (callToolHandler env request sessions)) =
             [\<lparr>chat_model = MODEL env,
               chat_systemInstruction =
                 Some (buildSystemInstruction
                   \<lparr>config_cwd = cwd session,
                    config_sandbox = None,
                    config_baseInstructions = None,
                    config_developerInstructions = None\<rparr>),
               chat_history = history session,
               chat_message = arg_prompt (args request)\<rparr>]))
   \<and> (name request = ''gemini'' \<and>
       \<not> isError (reply (callToolHandler env request sessions)) \<longrightarrow>
        (\<exists>stored.
           map_of (store (callToolHandler env request sessions))
             (generateConversationId (now env 1) (randomSuffix env)) = Some stored
           \<and> cwd stored = arg_cwd (args request)))"
proof (intro conjI impI)
  assume a: "name request = ''gemini-reply'' \<and>
             \<not> isError (reply (callToolHandler env request sessions))"
  then have h: "callToolHandler env request sessions =
                  geminiReplyBranch env (args request) (cleanupSessions (now env 0) sessions)"
    by (simp add: callToolHandler_reply)
  show "\<exists>session answer.
         map_of (cleanupSessions (now env 0) sessions) (arg_conversationId (args request)) =
           Some session
         \<and> store (callToolHandler env request sessions) =
             AList.update (arg_conversationId (args request))
               (session\<lparr>history := history session @
                           [Content ''user'' [arg_prompt (args request)],
                            Content ''model'' [answer]],
                        lastUsed := now env 1\<rparr>)
               (cleanupSessions (now env 0) sessions)
         \<and> map_of (store (callToolHandler env request sessions)) =
             (map_of (cleanupSessions (now env 0) sessions))
               (arg_conversationId (args request) \<mapsto>
                  session\<lparr>history := history session @
                             [Content ''user'' [arg_prompt (args request)],
                              Content ''model'' [answer]],
                          lastUsed := now env 1\<rparr>)
         \<and> (\<exists>stored.
               map_of (store (callToolHandler env request sessions))
                 (arg_conversationId (args request)) = Some stored
               \<and> createdAt stored = createdAt session
               \<and> cwd stored = cwd session)
         \<and> chatRequests (sent (callToolHandler env request sessions)) =
             [\<lparr>chat_model = MODEL env,
               chat_systemInstruction =
                 Some (buildSystemInstruction
                   \<lparr>config_cwd = cwd session,
                    config_sandbox = None,
                    config_baseInstructions = None,
                    config_developerInstructions = None\<rparr>),
               chat_history = history session,
               chat_message = arg_prompt (args request)\<rparr>]"
  proof (cases rule: geminiReplyBranch_cases
      [of "cleanupSessions (now env 0) sessions" "args request" env])
    case unknown
    with a h show ?thesis by simp
  next
    case (thrown session error)
    with a h show ?thesis by (simp add: isError_caught)
  next
    case (returned session answer)
    show ?thesis
    proof (intro exI conjI)
      show "map_of (cleanupSessions (now env 0) sessions) (arg_conversationId (args request)) =
              Some session"
        by (rule returned(1))
      show "store (callToolHandler env request sessions) =
             AList.update (arg_conversationId (args request))
               (session\<lparr>history := history session @
                           [Content ''user'' [arg_prompt (args request)],
                            Content ''model'' [answer]],
                        lastUsed := now env 1\<rparr>)
               (cleanupSessions (now env 0) sessions)"
        unfolding h by (rule returned(3))
      then show "map_of (store (callToolHandler env request sessions)) =
             (map_of (cleanupSessions (now env 0) sessions))
               (arg_conversationId (args request) \<mapsto>
                  session\<lparr>history := history session @
                             [Content ''user'' [arg_prompt (args request)],
                              Content ''model'' [answer]],
                          lastUsed := now env 1\<rparr>)"
        by (simp add: AList.update_conv')
      then show "map_of (store (callToolHandler env request sessions))
                 (arg_conversationId (args request)) =
                   Some (session\<lparr>history := history session @
                             [Content ''user'' [arg_prompt (args request)],
                              Content ''model'' [answer]],
                          lastUsed := now env 1\<rparr>)"
        by simp
      show "createdAt (session\<lparr>history := history session @
                             [Content ''user'' [arg_prompt (args request)],
                              Content ''model'' [answer]],
                          lastUsed := now env 1\<rparr>) = createdAt session"
        by simp
      show "cwd (session\<lparr>history := history session @
                             [Content ''user'' [arg_prompt (args request)],
                              Content ''model'' [answer]],
                          lastUsed := now env 1\<rparr>) = cwd session"
        by simp
      show "chatRequests (sent (callToolHandler env request sessions)) =
             [\<lparr>chat_model = MODEL env,
               chat_systemInstruction =
                 Some (buildSystemInstruction
                   \<lparr>config_cwd = cwd session,
                    config_sandbox = None,
                    config_baseInstructions = None,
                    config_developerInstructions = None\<rparr>),
               chat_history = history session,
               chat_message = arg_prompt (args request)\<rparr>]"
        unfolding h by (simp add: geminiReplyBranch_sent [OF returned(1)])
    qed
  qed
next
  assume a: "name request = ''gemini'' \<and>
             \<not> isError (reply (callToolHandler env request sessions))"
  then have h: "callToolHandler env request sessions =
                  geminiBranch env (args request) (cleanupSessions (now env 0) sessions)"
    by (simp add: callToolHandler_gemini)
  show "\<exists>stored.
           map_of (store (callToolHandler env request sessions))
             (generateConversationId (now env 1) (randomSuffix env)) = Some stored
           \<and> cwd stored = arg_cwd (args request)"
  proof (cases rule: geminiBranch_cases
      [of env "args request" "cleanupSessions (now env 0) sessions"])
    case (thrown error)
    with a h show ?thesis by (simp add: isError_caught)
  next
    case (returned answer)
    then show ?thesis
      unfolding h by (simp add: AList.update_conv')
  qed
qed

text \<open>An instance: the sample initial turn, and the sample continue turn on its store.\<close>

theorem C9_witness:
  "name sample_reply = ''gemini-reply''
   \<and> \<not> isError (reply (callToolHandler sample_env sample_reply
          [(''gemini-7200001-k3x9q2a'',
            \<lparr>history = [Content ''user'' [''hello''], Content ''model'' [''Hello'']],
             createdAt = 7200002, lastUsed = 7200003, cwd = Some ''/srv/app''\<rparr>)]))
   \<and> (\<exists>stored.
         map_of (store (callToolHandler sample_env sample_reply
           [(''gemini-7200001-k3x9q2a'',
             \<lparr>history = [Content ''user'' [''hello''], Content ''model'' [''Hello'']],
              createdAt = 7200002, lastUsed = 7200003, cwd = Some ''/srv/app''\<rparr>)]))
           ''gemini-7200001-k3x9q2a'' = Some stored
         \<and> createdAt stored = 7200002
         \<and> cwd stored = Some ''/srv/app'')
   \<and> name sample_initial = ''gemini''
   \<and> \<not> isError (reply (callToolHandler sample_env sample_initial []))
   \<and> (\<exists>stored.
         map_of (store (callToolHandler sample_env sample_initial []))
           ''gemini-7200001-k3x9q2a'' = Some stored
         \<and> cwd stored = Some ''/srv/app'')"
proof -
  let ?s1 = "[(''gemini-7200001-k3x9q2a'',
            \<lparr>history = [Content ''user'' [''hello''], Content ''model'' [''Hello'']],
             createdAt = 7200002, lastUsed = 7200003, cwd = Some ''/srv/app''\<rparr>)]"
  have n1: "name sample_initial = ''gemini''"
    by (simp add: sample_initial_def)
  have e1: "\<not> isError (reply (callToolHandler sample_env sample_initial []))"
    by (simp add: sample_initial_outcome)
  have n2: "name sample_reply = ''gemini-reply''"
    by (simp add: sample_reply_def)
  have e2: "\<not> isError (reply (callToolHandler sample_env sample_reply ?s1))"
    by (simp add: sample_reply_outcome)
  have sweep: "cleanupSessions (now sample_env 0) ?s1 = ?s1"
    by (simp add: cleanupSessions_def sample_env_def)
  have key: "arg_conversationId (args sample_reply) = ''gemini-7200001-k3x9q2a''"
    by (simp add: sample_reply_def sample_args_def)
  have newid: "generateConversationId (now sample_env 1) (randomSuffix sample_env) =
                 ''gemini-7200001-k3x9q2a''"
    by (simp add: generateConversationId_def show_int_def show_nat.simps sample_env_def)
  have cwd0: "arg_cwd (args sample_initial) = Some ''/srv/app''"
    by (simp add: sample_initial_def sample_args_def)
  note inst2 = C9_reply_changes_history_and_lastUsed_only [of sample_reply sample_env ?s1]
  note inst1 = C9_reply_changes_history_and_lastUsed_only [of sample_initial sample_env "[]"]
  from inst2 n2 e2 obtain session stored where
      "map_of (cleanupSessions (now sample_env 0) ?s1) (arg_conversationId (args sample_reply)) =
         Some session"
      "map_of (store (callToolHandler sample_env sample_reply ?s1))
         (arg_conversationId (args sample_reply)) = Some stored"
      "createdAt stored = createdAt session" "cwd stored = cwd session"
    by blast
  then have r: "\<exists>stored.
         map_of (store (callToolHandler sample_env sample_reply ?s1))
           ''gemini-7200001-k3x9q2a'' = Some stored
         \<and> createdAt stored = 7200002
         \<and> cwd stored = Some ''/srv/app''"
    unfolding sweep key by auto
  from inst1 n1 e1 have "\<exists>stored.
           map_of (store (callToolHandler sample_env sample_initial []))
             (generateConversationId (now sample_env 1) (randomSuffix sample_env)) = Some stored
           \<and> cwd stored = arg_cwd (args sample_initial)"
    by blast
  then have g: "\<exists>stored.
         map_of (store (callToolHandler sample_env sample_initial []))
           ''gemini-7200001-k3x9q2a'' = Some stored
         \<and> cwd stored = Some ''/srv/app''"
    unfolding newid cwd0 .
  from n2 e2 r n1 e1 g show ?thesis
    by blast
qed

section \<open>The model argument of an initial turn\<close>

text \<open>
  C10 (the \<open>model\<close> argument). Two initial-turn dispatches that differ only in the
  \<open>model\<close> argument have the same outcome: the same response, the same store and the
  same remote call, whose model is the one configured by the environment variable
  \<open>GEMINI_MODEL\<close> (or the default name when it is unset or empty).
\<close>

theorem C10_model_argument_is_ignored:
  "callToolHandler env \<lparr>name = ''gemini'', args = a\<lparr>arg_model := m\<rparr>\<rparr> sessions =
     callToolHandler env \<lparr>name = ''gemini'', args = a\<lparr>arg_model := m'\<rparr>\<rparr> sessions
   \<and> map chat_model (chatRequests (sent
         (callToolHandler env \<lparr>name = ''gemini'', args = a\<lparr>arg_model := m\<rparr>\<rparr> sessions))) =
       [MODEL env]
   \<and> MODEL env =
       (case GEMINI_MODEL env of
          None \<Rightarrow> ''gemini-3-pro-preview''
        | Some configured \<Rightarrow> if configured \<noteq> [] then configured else ''gemini-3-pro-preview'')"
proof (intro conjI)
  have "geminiBranch env (a\<lparr>arg_model := m\<rparr>) (cleanupSessions (now env 0) sessions) =
        geminiBranch env (a\<lparr>arg_model := m'\<rparr>) (cleanupSessions (now env 0) sessions)"
    unfolding geminiBranch_def Let_def by (simp split: sum.split)
  then show "callToolHandler env \<lparr>name = ''gemini'', args = a\<lparr>arg_model := m\<rparr>\<rparr> sessions =
     callToolHandler env \<lparr>name = ''gemini'', args = a\<lparr>arg_model := m'\<rparr>\<rparr> sessions"
    by (simp add: callToolHandler_gemini)
  show "map chat_model (chatRequests (sent
         (callToolHandler env \<lparr>name = ''gemini'', args = a\<lparr>arg_model := m\<rparr>\<rparr> sessions))) =
       [MODEL env]"
    by (simp add: callToolHandler_gemini geminiBranch_sent)
  show "MODEL env =
       (case GEMINI_MODEL env of
          None \<Rightarrow> ''gemini-3-pro-preview''
        | Some configured \<Rightarrow> if configured \<noteq> [] then configured else ''gemini-3-pro-preview'')"
    by (simp add: MODEL_def)
qed

section \<open>The instruction composer\<close>

lemma access_block:
  assumes "s \<notin> set Object_prototype_names"
  shows "(if s \<noteq> [] \<and> truthy (sandboxDescriptions s)
          then [''\<newline>Access level: '' @ toString (sandboxDescriptions s)]
          else []) =
         (case map_of ownDescriptions s of
            None \<Rightarrow> []
          | Some description \<Rightarrow> [''\<newline>Access level: '' @ description])"
proof (cases "map_of ownDescriptions s")
  case None
  with assms show ?thesis
    by (simp add: sandboxDescriptions_def)
next
  case (Some description)
  then have "description \<noteq> []" and "s \<noteq> []"
    by (auto simp add: ownDescriptions_def split: if_splits)
  with Some show ?thesis
    by (simp add: sandboxDescriptions_def)
qed

lemma buildSystemInstruction_refines:
  assumes "config_sandbox config \<notin> Some ` set Object_prototype_names"
  shows "buildSystemInstruction config = compose_spec (nonEmptyFields config)"
proof -
  have sandbox: "(case config_sandbox config of
               None \<Rightarrow> []
             | Some s \<Rightarrow>
                 if s \<noteq> [] \<and> truthy (sandboxDescriptions s)
                 then [''\<newline>Access level: '' @ toString (sandboxDescriptions s)]
                 else []) =
          (case dropEmpty (config_sandbox config) of
             None \<Rightarrow> []
           | Some s \<Rightarrow>
               (case map_of ownDescriptions s of
                  None \<Rightarrow> []
                | Some description \<Rightarrow> [''\<newline>Access level: '' @ description]))"
  proof (cases "config_sandbox config")
    case None
    then show ?thesis by (simp add: dropEmpty_def)
  next
    case (Some s)
    with assms have "s \<notin> set Object_prototype_names" by auto
    from access_block [OF this] Some show ?thesis
      by (cases "s = []") (simp_all add: dropEmpty_def)
  qed
  have base: "(case config_baseInstructions config of
               None \<Rightarrow> [defaultInstructions]
             | Some b \<Rightarrow> if b \<noteq> [] then [b] else [defaultInstructions]) =
          [case dropEmpty (config_baseInstructions config) of
             None \<Rightarrow> defaultInstructions
           | Some b \<Rightarrow> b]"
    by (simp add: dropEmpty_def split: option.split)
  have dir: "(case config_cwd config of
               None \<Rightarrow> []
             | Some d \<Rightarrow> if d \<noteq> [] then [''\<newline>Working directory: '' @ d] else []) =
          (case dropEmpty (config_cwd config) of
             None \<Rightarrow> []
           | Some d \<Rightarrow> [''\<newline>Working directory: '' @ d])"
    by (simp add: dropEmpty_def split: option.split)
  have dev: "(case config_developerInstructions config of
               None \<Rightarrow> []
             | Some d \<Rightarrow>
                 if d \<noteq> [] then [''\<newline>Developer Instructions:\<newline>'' @ d] else []) =
          (case dropEmpty (config_developerInstructions config) of
             None \<Rightarrow> []
           | Some d \<Rightarrow> [''\<newline>Developer Instructions:\<newline>'' @ d])"
    by (simp add: dropEmpty_def split: option.split)
  show ?thesis
    unfolding buildSystemInstruction_def compose_spec_def Let_def base dir dev sandbox
    by (simp add: nonEmptyFields_def)
qed

text \<open>
  C8, as amended (the instruction composer). \<open>buildSystemInstruction\<close> is a total
  function of its configuration. Unless the access policy is one of the twelve names
  inherited from \<open>Object.prototype\<close>, its result is the specified composition applied
  to the fields that are present and not the empty string: the base instructions, or the
  default paragraph, then the working directory block, the access description and the
  developer instructions, joined by newlines in that order. With no optional field the
  result is the default paragraph. An access policy that is neither one of the three
  recognized values nor an inherited name contributes nothing. With all four fields
  non-empty and a recognized policy the result is the four blocks in order.
\<close>

theorem C8_composition_of_nonempty_fields:
  "(config_sandbox config \<notin> Some ` set Object_prototype_names \<longrightarrow>
      buildSystemInstruction config = compose_spec (nonEmptyFields config))
   \<and> buildSystemInstruction no_config = defaultInstructions
   \<and> (s \<notin> fst ` set ownDescriptions \<and> s \<notin> set Object_prototype_names \<longrightarrow>
        buildSystemInstruction (config\<lparr>config_sandbox := Some s\<rparr>) =
          buildSystemInstruction (config\<lparr>config_sandbox := None\<rparr>))
   \<and> (b \<noteq> [] \<and> d \<noteq> [] \<and> v \<noteq> [] \<and> map_of ownDescriptions p = Some description \<longrightarrow>
        buildSystemInstruction
          \<lparr>config_cwd = Some d, config_sandbox = Some p,
           config_baseInstructions = Some b, config_developerInstructions = Some v\<rparr> =
          b @ ''\<newline>'' @ ''\<newline>Working directory: '' @ d @
              ''\<newline>'' @ ''\<newline>Access level: '' @ description @
              ''\<newline>'' @ ''\<newline>Developer Instructions:\<newline>'' @ v)"
proof (intro conjI impI)
  assume "config_sandbox config \<notin> Some ` set Object_prototype_names"
  then show "buildSystemInstruction config = compose_spec (nonEmptyFields config)"
    by (rule buildSystemInstruction_refines)
next
  show "buildSystemInstruction no_config = defaultInstructions"
    by (simp add: buildSystemInstruction_def no_config_def)
next
  assume a: "s \<notin> fst ` set ownDescriptions \<and> s \<notin> set Object_prototype_names"
  then have "map_of ownDescriptions s = None"
    by (simp add: map_of_eq_None_iff)
  with a have "sandboxDescriptions s = Undefined"
    by (simp add: sandboxDescriptions_def)
  then show "buildSystemInstruction (config\<lparr>config_sandbox := Some s\<rparr>) =
          buildSystemInstruction (config\<lparr>config_sandbox := None\<rparr>)"
    by (simp add: buildSystemInstruction_def)
next
  assume a: "b \<noteq> [] \<and> d \<noteq> [] \<and> v \<noteq> [] \<and> map_of ownDescriptions p = Some description"
  then have "p \<notin> set Object_prototype_names"
    by (auto simp add: ownDescriptions_def Object_prototype_names_def split: if_splits)
  then have "Some p \<notin> Some ` set Object_prototype_names"
    by auto
  then have "buildSystemInstruction
          \<lparr>config_cwd = Some d, config_sandbox = Some p,
           config_baseInstructions = Some b, config_developerInstructions = Some v\<rparr> =
        compose_spec (nonEmptyFields
          \<lparr>config_cwd = Some d, config_sandbox = Some p,
           config_baseInstructions = Some b, config_developerInstructions = Some v\<rparr>)"
    by (simp add: buildSystemInstruction_refines)
  moreover from a have "p \<noteq> []"
    by (auto simp add: ownDescriptions_def)
  ultimately show "buildSystemInstruction
          \<lparr>config_cwd = Some d, config_sandbox = Some p,
           config_baseInstructions = Some b, config_developerInstructions = Some v\<rparr> =
          b @ ''\<newline>'' @ ''\<newline>Working directory: '' @ d @
              ''\<newline>'' @ ''\<newline>Access level: '' @ description @
              ''\<newline>'' @ ''\<newline>Developer Instructions:\<newline>'' @ v"
    using a by (simp add: compose_spec_def nonEmptyFields_def dropEmpty_def)
qed

text \<open>
  C8 as stated fails. A working directory supplied as the empty string yields no block:
  the result is the default paragraph alone, where the composition of the supplied fields
  ends with the working directory label. And the access policy \<open>constructor\<close>, outside
  the three recognized values, does contribute an access line, because the table lookup
  finds the property that every object inherits.
\<close>

theorem C8_counterexample:
  "buildSystemInstruction (no_config\<lparr>config_cwd := Some ''''\<rparr>) = defaultInstructions
   \<and> compose_spec (no_config\<lparr>config_cwd := Some ''''\<rparr>) =
       defaultInstructions @ ''\<newline>\<newline>Working directory: ''
   \<and> buildSystemInstruction (no_config\<lparr>config_cwd := Some ''''\<rparr>) \<noteq>
       compose_spec (no_config\<lparr>config_cwd := Some ''''\<rparr>)
   \<and> buildSystemInstruction (no_config\<lparr>config_sandbox := Some ''constructor''\<rparr>) =
       defaultInstructions @ ''\<newline>\<newline>Access level: function Object() { [native code] }''
   \<and> buildSystemInstruction (no_config\<lparr>config_sandbox := Some ''constructor''\<rparr>) \<noteq>
       buildSystemInstruction (no_config\<lparr>config_sandbox := None\<rparr>)"
  by (simp add: buildSystemInstruction_def compose_spec_def no_config_def
        sandboxDescriptions_def ownDescriptions_def Object_prototype_names_def)


text \<open>
  Instances: the unrecognized policy \<open>admin\<close> with a working directory, and all four
  fields with the policy \<open>workspace-write\<close>.
\<close>

theorem C8_witness:
  "config_sandbox (no_config\<lparr>config_cwd := Some ''/srv/app'', config_sandbox := Some ''admin''\<rparr>)
     \<notin> Some ` set Object_prototype_names
   \<and> buildSystemInstruction
        (no_config\<lparr>config_cwd := Some ''/srv/app'', config_sandbox := Some ''admin''\<rparr>) =
       defaultInstructions @ ''\<newline>\<newline>Working directory: /srv/app''
   \<and> ''admin'' \<notin> fst ` set ownDescriptions \<and> ''admin'' \<notin> set Object_prototype_names
   \<and> buildSystemInstruction (no_config\<lparr>config_sandbox := Some ''admin''\<rparr>) =
       buildSystemInstruction (no_config\<lparr>config_sandbox := None\<rparr>)
   \<and> map_of ownDescriptions ''workspace-write'' =
       Some ''You can read and write within the workspace directory.''
   \<and> buildSystemInstruction
        \<lparr>config_cwd = Some ''/srv/app'', config_sandbox = Some ''workspace-write'',
         config_baseInstructions = Some ''Be terse.'',
         config_developerInstructions = Some ''Use tabs.''\<rparr> =
       ''Be terse.\<newline>\<newline>Working directory: /srv/app'' @
       ''\<newline>\<newline>Access level: You can read and write within the workspace directory.'' @
       ''\<newline>\<newline>Developer Instructions:\<newline>Use tabs.''"
proof -
  let ?a = "no_config\<lparr>config_cwd := Some ''/srv/app'', config_sandbox := Some ''admin''\<rparr>"
  note inst = C8_composition_of_nonempty_fields
      [where config = ?a and s = "''admin''" and b = "''Be terse.''" and d = "''/srv/app''"
         and v = "''Use tabs.''" and p = "''workspace-write''"
         and description = "''You can read and write within the workspace directory.''"]
  have h1: "config_sandbox ?a \<notin> Some ` set Object_prototype_names"
    by (simp add: no_config_def Object_prototype_names_def)
  have h2: "''admin'' \<notin> fst ` set ownDescriptions \<and> ''admin'' \<notin> set Object_prototype_names"
    by (simp add: ownDescriptions_def Object_prototype_names_def)
  have h3: "map_of ownDescriptions ''workspace-write'' =
              Some ''You can read and write within the workspace directory.''"
    by (simp add: ownDescriptions_def)
  from inst h1 have "buildSystemInstruction ?a = compose_spec (nonEmptyFields ?a)"
    by blast
  then have c1: "buildSystemInstruction ?a =
                   defaultInstructions @ ''\<newline>\<newline>Working directory: /srv/app''"
    by (simp add: compose_spec_def nonEmptyFields_def dropEmpty_def no_config_def
          ownDescriptions_def)
  from inst h2 have "buildSystemInstruction (?a\<lparr>config_sandbox := Some ''admin''\<rparr>) =
          buildSystemInstruction (?a\<lparr>config_sandbox := None\<rparr>)"
    by blast
  moreover have "buildSystemInstruction (no_config\<lparr>config_sandbox := Some ''admin''\<rparr>) =
          buildSystemInstruction (no_config\<lparr>config_sandbox := None\<rparr>)"
    using C8_composition_of_nonempty_fields
      [where config = no_config and s = "''admin''" and b = "''Be terse.''" and d = "''/srv/app''"
         and v = "''Use tabs.''" and p = "''workspace-write''"
         and description = "''You can read and write within the workspace directory.''"] h2
    by blast
  ultimately have c2: "buildSystemInstruction (no_config\<lparr>config_sandbox := Some ''admin''\<rparr>) =
          buildSystemInstruction (no_config\<lparr>config_sandbox := None\<rparr>)"
    by simp
  from inst h3 have c3: "buildSystemInstruction
          \<lparr>config_cwd = Some ''/srv/app'', config_sandbox = Some ''workspace-write'',
           config_baseInstructions = Some ''Be terse.'',
           config_developerInstructions = Some ''Use tabs.''\<rparr> =
          ''Be terse.'' @ ''\<newline>'' @ ''\<newline>Working directory: '' @ ''/srv/app'' @
              ''\<newline>'' @ ''\<newline>Access level: '' @
              ''You can read and write within the workspace directory.'' @
              ''\<newline>'' @ ''\<newline>Developer Instructions:\<newline>'' @ ''Use tabs.''"
    by simp
  from h1 c1 h2 c2 h3 c3 show ?thesis
    by simp
qed

end
